theory Spec2Isabelle
  imports Complex_Main
begin

text \<open>
  A shallow embedding of \<open>Predict (Regression)/CNN.py\<close>: the model class \<open>CNN\<close> with
  its constructor and \<open>forward\<close>, and the three loops \<open>train\<close>, \<open>validate\<close> and
  \<open>test\<close>. Exceptions are values of a sum type, the mutated model is passed and
  returned, and what the tensor, vision, metrics and table libraries supply (backbones,
  initial weights, the optimizer, the criterion, the metric, the table's content) enters
  as arguments.
\<close>

section \<open>Errors and tensors\<close>

text \<open>
  The exceptions the script can raise. \<open>ValueError\<close> carries the message the source
  gives it; \<open>TorchError\<close> stands for any exception raised inside a tensor-library
  operation (a shape mismatch in a linear layer, in \<open>torch.cat\<close>, in \<open>squeeze\<close>,
  in \<open>item\<close>); \<open>IndexError\<close> is Python's own, from indexing a shape tuple;
  \<open>TypeError\<close> comes from iterating a 0-dimensional array; \<open>AttributeError\<close> from
  reading a sub-module that was never created; \<open>KeyError\<close> carries the missing key;
  \<open>OSError\<close> stands for the operating system's refusal to open a file (with its
  subclasses, such as \<open>FileNotFoundError\<close>).
\<close>

datatype error =
    ValueError string
  | TorchError
  | IndexError
  | TypeError
  | AttributeError
  | KeyError string
  | ZeroDivisionError
  | OSError

text \<open>Sequencing of fallible steps: the first exception ends the computation.\<close>

definition ebind :: "error + 'a \<Rightarrow> ('a \<Rightarrow> error + 'b) \<Rightarrow> error + 'b" where
  "ebind r f = (case r of Inl e \<Rightarrow> Inl e | Inr v \<Rightarrow> f v)"

text \<open>
  A tensor is its shape together with its entries, read by multi-index. Entries (and
  Python floats throughout) are real numbers.
\<close>

datatype tensor = Tensor (shape: "nat list") (elem: "nat list \<Rightarrow> real")

text \<open>\<open>t.size(0)\<close>: the extent of the first dimension; a 0-dimensional tensor has none.\<close>

definition size0 :: "tensor \<Rightarrow> error + nat" where
  "size0 t = (case shape t of [] \<Rightarrow> Inl IndexError | n # _ \<Rightarrow> Inr n)"

section \<open>Layers\<close>

text \<open>
  \<open>nn.Linear(i, o)\<close> with weight \<open>W\<close> (\<open>o\<close> rows, \<open>i\<close> columns) and bias \<open>b\<close> acts on
  the last dimension, which must have extent \<open>i\<close>; \<open>nn.ReLU\<close> acts entrywise.
\<close>

datatype layer =
    Linear (in_features: nat) (out_features: nat) "nat \<Rightarrow> nat \<Rightarrow> real" "nat \<Rightarrow> real"
  | ReLU

fun apply_layer :: "layer \<Rightarrow> tensor \<Rightarrow> error + tensor" where
  "apply_layer (Linear i out W b) t =
     (if shape t \<noteq> [] \<and> last (shape t) = i
      then Inr (Tensor (butlast (shape t) @ [out])
                 (\<lambda>idx. sum_list (map (\<lambda>k. W (last idx) k * elem t (butlast idx @ [k])) [0..<i])
                        + b (last idx)))
      else Inl TorchError)"
| "apply_layer ReLU t = Inr (Tensor (shape t) (\<lambda>idx. max 0 (elem t idx)))"

text \<open>\<open>nn.Sequential\<close>: the layers in order.\<close>

fun sequential :: "layer list \<Rightarrow> tensor \<Rightarrow> error + tensor" where
  "sequential [] t = Inr t"
| "sequential (l # ls) t = ebind (apply_layer l t) (sequential ls)"

text \<open>
  \<open>torch.cat([a, b], dim=1)\<close>: both tensors have the same number of dimensions, at least
  two, and agree in every dimension but the second. (The library also lets a tensor of
  shape \<open>[0]\<close> through; neither argument of the one call in \<open>forward\<close> can have that
  shape, since both leave a linear layer of positive width.)
\<close>

definition cat1 :: "tensor \<Rightarrow> tensor \<Rightarrow> error + tensor" where
  "cat1 a b =
     (if 2 \<le> length (shape a) \<and> length (shape a) = length (shape b)
         \<and> (shape a)[1 := 0] = (shape b)[1 := 0]
      then Inr (Tensor ((shape a)[1 := shape a ! 1 + shape b ! 1])
                 (\<lambda>idx. if idx ! 1 < shape a ! 1 then elem a idx
                        else elem b (idx[1 := idx ! 1 - shape a ! 1])))
      else Inl TorchError)"

text \<open>
  \<open>t.squeeze(1)\<close>: the second dimension is removed when its extent is 1 and kept
  otherwise; a tensor with fewer than two dimensions has no second dimension.
\<close>

definition squeeze1 :: "tensor \<Rightarrow> error + tensor" where
  "squeeze1 t =
     (if length (shape t) < 2 then Inl TorchError
      else if shape t ! 1 = 1
      then Inr (Tensor (take 1 (shape t) @ drop 2 (shape t))
                 (\<lambda>idx. elem t (take 1 idx @ [0] @ drop 1 idx)))
      else Inr t)"

section \<open>The model\<close>

text \<open>
  The three feature extractors are built by the tensor and vision libraries (the two
  pretrained networks with their classifier replaced by the identity, and the
  convolutional stack); the script only selects one of them. They enter the model as
  functions from the training-mode flag and an image batch to an embedding batch.
\<close>

type_synonym extractor = "bool \<Rightarrow> tensor \<Rightarrow> error + tensor"

record backbones =
  resnet18 :: extractor
  efficientnet_b0 :: extractor
  simple_cnn :: extractor

text \<open>
  The initial weights of the linear layers are drawn at random by the library; they
  enter as a table from the layer's name to its weight and bias.
\<close>

type_synonym init = "string \<Rightarrow> (nat \<Rightarrow> nat \<Rightarrow> real) \<times> (nat \<Rightarrow> real)"

definition new_Linear :: "init \<Rightarrow> string \<Rightarrow> nat \<Rightarrow> nat \<Rightarrow> layer" where
  "new_Linear ini name i out = Linear i out (fst (ini name)) (snd (ini name))"

record CNN =
  model_type :: string
  use_extra_params :: bool
  training :: bool
  feature_extractor :: extractor
  reduce :: "layer list"
  param_fc_2 :: "layer list option"
  param_fc_3 :: "layer list option"
  fc1 :: "layer list"
  fc2 :: layer

text \<open>The backbone dispatch of the constructor: the extractor and \<open>feature_dim\<close>.\<close>

definition select_backbone :: "backbones \<Rightarrow> string \<Rightarrow> error + extractor \<times> nat" where
  "select_backbone bb mt =
     (if mt = ''resnet18'' then Inr (resnet18 bb, 512)
      else if mt = ''efficientnet_b0'' then Inr (efficientnet_b0 bb, 1280)
      else if mt = ''simple_cnn'' then Inr (simple_cnn bb, 64)
      else Inl (ValueError (''Unsupported model type: '' @ mt)))"

definition CNN_init :: "backbones \<Rightarrow> init \<Rightarrow> string \<Rightarrow> bool \<Rightarrow> error + CNN" where
  "CNN_init bb ini mt use_extra =
     ebind (select_backbone bb mt) (\<lambda>(fe, feature_dim).
       Inr \<lparr> model_type = mt,
             use_extra_params = use_extra,
             training = True,
             feature_extractor = fe,
             reduce = [new_Linear ini ''reduce.0'' feature_dim 128, ReLU],
             param_fc_2 =
               (if use_extra
                then Some [new_Linear ini ''param_fc_2.0'' 2 16, ReLU,
                           new_Linear ini ''param_fc_2.2'' 16 64, ReLU]
                else None),
             param_fc_3 =
               (if use_extra
                then Some [new_Linear ini ''param_fc_3.0'' 3 16, ReLU,
                           new_Linear ini ''param_fc_3.2'' 16 64, ReLU]
                else None),
             fc1 =
               (if use_extra
                then [new_Linear ini ''fc1.0'' (128 + 64) 64, ReLU]
                else [new_Linear ini ''fc1.0'' 128 64, ReLU]),
             fc2 = new_Linear ini ''fc2'' 64 1 \<rparr>)"

text \<open>Reading a sub-module that the constructor may not have created.\<close>

definition attr :: "'a option \<Rightarrow> error + 'a" where
  "attr a = (case a of None \<Rightarrow> Inl AttributeError | Some v \<Rightarrow> Inr v)"

text \<open>
  The auxiliary branch of \<open>forward\<close>: \<open>extra_params.shape[1]\<close> selects the encoder.
\<close>

definition encode_extra :: "CNN \<Rightarrow> tensor \<Rightarrow> error + tensor" where
  "encode_extra m extra_params =
     (if length (shape extra_params) < 2 then Inl IndexError
      else if shape extra_params ! 1 = 2
      then ebind (attr (param_fc_2 m)) (\<lambda>enc. sequential enc extra_params)
      else if shape extra_params ! 1 = 3
      then ebind (attr (param_fc_3 m)) (\<lambda>enc. sequential enc extra_params)
      else Inl (ValueError ''error - extra_params shape''))"

definition forward :: "CNN \<Rightarrow> tensor \<Rightarrow> tensor option \<Rightarrow> error + tensor" where
  "forward m x extra_params =
     ebind (feature_extractor m (training m) x) (\<lambda>x.
     ebind (sequential (reduce m) x) (\<lambda>x.
     ebind (if use_extra_params m
            then (case extra_params of
                    None \<Rightarrow> Inl (ValueError ''extra_params is required but not provided.'')
                  | Some e \<Rightarrow> ebind (encode_extra m e) (\<lambda>p. cat1 x p))
            else Inr x) (\<lambda>x.
     ebind (sequential (fc1 m) x) (\<lambda>out.
     ebind (apply_layer (fc2 m) out) squeeze1))))"

section \<open>Training and validation loops\<close>

text \<open>
  A loader is the list of batches it yields in one pass, each batch the triple
  \<open>(inputs, labels, extra_params)\<close>. Moving a tensor to a device does not change it
  and is left out. The criterion is supplied by the caller and returns the loss tensor.
\<close>

type_synonym batch = "tensor \<times> tensor \<times> tensor"

type_synonym criterion = "tensor \<Rightarrow> tensor \<Rightarrow> error + tensor"

text \<open>\<open>t.item()\<close>: the single entry of a tensor with exactly one entry.\<close>

definition item :: "tensor \<Rightarrow> error + real" where
  "item t =
     (if prod_list (shape t) = 1 then Inr (elem t (replicate (length (shape t)) 0))
      else Inl TorchError)"

text \<open>Python's \<open>total_loss / total\<close> with a float numerator and an int denominator
  (\<open>total\<close> is written \<open>total_n\<close> below).\<close>

definition py_div :: "real \<Rightarrow> nat \<Rightarrow> error + real" where
  "py_div a n = (if n = 0 then Inl ZeroDivisionError else Inr (a / real n))"

text \<open>
  \<open>optimizer.zero_grad(); loss.backward(); optimizer.step()\<close> is the work of the
  automatic-differentiation library and of the optimizer the caller supplies: a function
  from the model, the optimizer's own state and the batch to the updated pair.
\<close>

type_synonym 'o backward_step = "CNN \<times> 'o \<Rightarrow> batch \<Rightarrow> error + CNN \<times> 'o"

text \<open>
  The body of the training loop for one batch: the updated model and optimizer, the
  batch loss \<open>loss.item()\<close> and the batch size \<open>inputs.size(0)\<close>.
\<close>

definition train_step ::
  "criterion \<Rightarrow> 'o backward_step \<Rightarrow> CNN \<times> 'o \<Rightarrow> batch \<Rightarrow> error + (CNN \<times> 'o) \<times> real \<times> nat"
where
  "train_step crit step s b =
     (case b of (inputs, labels, extra_params) \<Rightarrow>
        ebind (forward (fst s) inputs (Some extra_params)) (\<lambda>outputs.
        ebind (crit outputs labels) (\<lambda>loss.
        ebind (step s b) (\<lambda>s'.
        ebind (item loss) (\<lambda>l.
        ebind (size0 inputs) (\<lambda>n. Inr (s', l, n)))))))"

fun train_loop ::
  "criterion \<Rightarrow> 'o backward_step \<Rightarrow> CNN \<times> 'o \<Rightarrow> real \<Rightarrow> nat \<Rightarrow> batch list
     \<Rightarrow> error + (CNN \<times> 'o) \<times> real \<times> nat"
where
  "train_loop crit step s total_loss total_n [] = Inr (s, total_loss, total_n)"
| "train_loop crit step s total_loss total_n (b # bs) =
     ebind (train_step crit step s b) (\<lambda>(s', l, n).
       train_loop crit step s' (total_loss + l * real n) (total_n + n) bs)"

text \<open>
  \<open>train\<close> returns the average loss; the model and the optimizer it has mutated are
  returned with it.
\<close>

definition train ::
  "CNN \<Rightarrow> batch list \<Rightarrow> criterion \<Rightarrow> 'o backward_step \<Rightarrow> 'o \<Rightarrow> error + (CNN \<times> 'o) \<times> real"
where
  "train model train_loader crit step opt =
     ebind (train_loop crit step (model\<lparr>training := True\<rparr>, opt) 0 0 train_loader)
       (\<lambda>(s, total_loss, total_n).
          ebind (py_div total_loss total_n) (\<lambda>avg_loss. Inr (s, avg_loss)))"

text \<open>
  The per-batch losses of a training pass, with the batch sizes: the values whose
  size-weighted mean the specification speaks of.
\<close>

fun batch_losses ::
  "criterion \<Rightarrow> 'o backward_step \<Rightarrow> CNN \<times> 'o \<Rightarrow> batch list \<Rightarrow> error + (real \<times> nat) list"
where
  "batch_losses crit step s [] = Inr []"
| "batch_losses crit step s (b # bs) =
     ebind (train_step crit step s b) (\<lambda>(s', l, n).
       ebind (batch_losses crit step s' bs) (\<lambda>ls. Inr ((l, n) # ls)))"

definition weighted_mean :: "(real \<times> nat) list \<Rightarrow> real" where
  "weighted_mean ls =
     sum_list (map (\<lambda>(l, n). l * real n) ls) / real (sum_list (map snd ls))"

text \<open>
  Iterating a tensor or an array (\<open>list.extend\<close>, \<open>zip\<close>) yields its slices along
  the first dimension; a 0-dimensional one cannot be iterated.
\<close>

definition iter_tensor :: "tensor \<Rightarrow> error + tensor list" where
  "iter_tensor t =
     (case shape t of
        [] \<Rightarrow> Inl TypeError
      | n # sh \<Rightarrow> Inr (map (\<lambda>i. Tensor sh (\<lambda>idx. elem t (i # idx))) [0..<n]))"

text \<open>
  The body of the validation loop for one batch: batch loss, batch size, and the labels
  and outputs that extend \<open>all_labels\<close> and \<open>all_outputs\<close>.
\<close>

definition validate_step ::
  "criterion \<Rightarrow> CNN \<Rightarrow> batch \<Rightarrow> error + real \<times> nat \<times> tensor list \<times> tensor list"
where
  "validate_step crit model b =
     (case b of (inputs, labels, extra_params) \<Rightarrow>
        ebind (forward model inputs (Some extra_params)) (\<lambda>outputs.
        ebind (crit outputs labels) (\<lambda>loss.
        ebind (item loss) (\<lambda>l.
        ebind (size0 inputs) (\<lambda>n.
        ebind (iter_tensor labels) (\<lambda>ls.
        ebind (iter_tensor outputs) (\<lambda>os. Inr (l, n, ls, os))))))))"

fun validate_loop ::
  "criterion \<Rightarrow> CNN \<Rightarrow> real \<Rightarrow> nat \<Rightarrow> tensor list \<Rightarrow> tensor list \<Rightarrow> batch list
     \<Rightarrow> error + real \<times> nat \<times> tensor list \<times> tensor list"
where
  "validate_loop crit model total_loss total_n all_labels all_outputs [] =
     Inr (total_loss, total_n, all_labels, all_outputs)"
| "validate_loop crit model total_loss total_n all_labels all_outputs (b # bs) =
     ebind (validate_step crit model b) (\<lambda>(l, n, ls, os).
       validate_loop crit model (total_loss + l * real n) (total_n + n)
         (all_labels @ ls) (all_outputs @ os) bs)"

text \<open>
  \<open>mean_absolute_error\<close> is the metrics library's; it is passed in. \<open>validate\<close>
  returns the model as the call leaves it, and the pair of results or the exception.
\<close>

definition validate ::
  "CNN \<Rightarrow> batch list \<Rightarrow> criterion \<Rightarrow> (tensor list \<Rightarrow> tensor list \<Rightarrow> error + real)
     \<Rightarrow> CNN \<times> (error + real \<times> real)"
where
  "validate model val_loader crit mean_absolute_error =
     (let model = model\<lparr>training := False\<rparr> in
      (model,
       ebind (validate_loop crit model 0 0 [] [] val_loader)
         (\<lambda>(total_loss, total_n, all_labels, all_outputs).
            ebind (py_div total_loss total_n) (\<lambda>avg_loss.
            ebind (mean_absolute_error all_labels all_outputs) (\<lambda>mae.
              Inr (avg_loss, mae))))))"

section \<open>The test loop\<close>

text \<open>
  \<open>Earthquake.csv\<close> as the table library reads it: one row per image, with the five
  columns the script uses. The file's content is an input of the model.
\<close>

record earthquake_row =
  Image :: string
  Mag :: real
  Lon :: real
  Lat :: real
  Depth :: real

text \<open>\<open>dict(zip(ks, vs))\<close>: a later pair replaces an earlier one with the same key.\<close>

definition dict_zip :: "'k list \<Rightarrow> 'v list \<Rightarrow> ('k \<rightharpoonup> 'v)" where
  "dict_zip ks vs = fold (\<lambda>(k, v) d. d(k \<mapsto> v)) (zip ks vs) Map.empty"

text \<open>\<open>d[name]\<close> raises \<open>KeyError\<close> for a missing key.\<close>

definition getitem :: "(string \<rightharpoonup> 'v) \<Rightarrow> string \<Rightarrow> error + 'v" where
  "getitem d name = (case d name of None \<Rightarrow> Inl (KeyError name) | Some v \<Rightarrow> Inr v)"

text \<open>
  Python's \<open>round(x, n)\<close> on the exact value of \<open>x\<close>: the nearest multiple of
  \<open>10 ^ - n\<close>, a tie going to the even one.
\<close>

definition py_round :: "real \<Rightarrow> nat \<Rightarrow> real" where
  "py_round x n =
     (let y = x * 10 ^ n; f = \<lfloor>y\<rfloor>; d = y - of_int f
      in of_int (if d < 1 / 2 then f
                 else if 1 / 2 < d then f + 1
                 else if even f then f else f + 1) / 10 ^ n)"

datatype cell = Str string | Num real

type_synonym prediction = "(string \<times> cell) list"

type_synonym labels =
  "(string \<rightharpoonup> real) \<times> (string \<rightharpoonup> real) \<times> (string \<rightharpoonup> real) \<times> (string \<rightharpoonup> real)"

text \<open>
  The body of the inner loop for one \<open>(name, pred)\<close> pair: the dictionary appended to
  \<open>predictions\<close>, the value appended to \<open>y_true\<close> and the value appended to
  \<open>y_pred\<close>. The label is looked up before \<open>pred.item()\<close> is evaluated.
\<close>

definition record_sample ::
  "string \<Rightarrow> labels \<Rightarrow> string \<Rightarrow> tensor \<Rightarrow> error + prediction \<times> real \<times> real"
where
  "record_sample target tbls name pred =
     (case tbls of (label_mag, label_lon, label_lat, label_dep) \<Rightarrow>
        if target = ''mag'' then
          ebind (getitem label_mag name) (\<lambda>v. ebind (item pred) (\<lambda>p.
            Inr ([(''id'', Str name), (''Mag'', Num v), (''prediction'', Num (py_round p 1))],
                 v, py_round p 1)))
        else if target = ''dep'' then
          ebind (getitem label_dep name) (\<lambda>v. ebind (item pred) (\<lambda>p.
            Inr ([(''id'', Str name), (''Dep'', Num v), (''prediction'', Num (py_round p 1))],
                 v, py_round p 1)))
        else if target = ''lon'' then
          ebind (getitem label_lon name) (\<lambda>v. ebind (item pred) (\<lambda>p.
            Inr ([(''id'', Str name), (''Lon'', Num v), (''prediction'', Num (py_round p 3))],
                 v, py_round p 2)))
        else
          ebind (getitem label_lat name) (\<lambda>v. ebind (item pred) (\<lambda>p.
            Inr ([(''id'', Str name), (''Lat'', Num v), (''prediction'', Num (py_round p 3))],
                 v, py_round p 2))))"

type_synonym test_acc = "prediction list \<times> real list \<times> real list"

fun sample_loop ::
  "string \<Rightarrow> labels \<Rightarrow> test_acc \<Rightarrow> (string \<times> tensor) list \<Rightarrow> error + test_acc"
where
  "sample_loop target tbls acc [] = Inr acc"
| "sample_loop target tbls acc ((name, pred) # rest) =
     (case acc of (predictions, y_true, y_pred) \<Rightarrow>
        ebind (record_sample target tbls name pred) (\<lambda>(row, t, p).
          sample_loop target tbls (predictions @ [row], y_true @ [t], y_pred @ [p]) rest))"

text \<open>A test batch is \<open>(images, image_names, extra_params)\<close>.\<close>

type_synonym test_batch = "tensor \<times> string list \<times> tensor"

fun test_loop ::
  "CNN \<Rightarrow> string \<Rightarrow> labels \<Rightarrow> test_acc \<Rightarrow> test_batch list \<Rightarrow> error + test_acc"
where
  "test_loop model target tbls acc [] = Inr acc"
| "test_loop model target tbls acc (b # bs) =
     (case b of (images, image_names, extra_params) \<Rightarrow>
        ebind (forward model images (Some extra_params)) (\<lambda>outputs.
        ebind (iter_tensor outputs) (\<lambda>predicted.
        ebind (sample_loop target tbls acc (zip image_names predicted)) (\<lambda>acc'.
          test_loop model target tbls acc' bs))))"

text \<open>
  The file the test loop writes: its name, its header and its rows. The name embeds the
  target and the text of the rounded error, formatted by \<open>fmt\<close> (Python's formatting of
  a float); the file is opened after the error has been computed, and nothing is written
  when opening fails. The arguments \<open>criterion\<close> and \<open>device\<close> of the source are not used by
  its body and are left out; the table read from \<open>Earthquake.csv\<close> and the metric are
  arguments here. The result is the file written and the error returned.
\<close>

record csv_file =
  file_name :: string
  fieldnames :: "string list"
  rows :: "prediction list"

text \<open>
  \<open>open(name, mode = 'w')\<close>: Python itself refuses a name with a NUL character
  (\<open>ValueError\<close>); for any other name the operating system decides whether the file can
  be created (a name whose directory part does not exist, a name that is too long or a
  location that is not writable raises \<open>OSError\<close> or one of its subclasses). The file
  system is the predicate that says which names can be created.
\<close>

type_synonym file_system = "string \<Rightarrow> bool"

definition open_w :: "file_system \<Rightarrow> string \<Rightarrow> error + unit" where
  "open_w fs name =
     (if CHR 0x00 \<in> set name then Inl (ValueError ''embedded null byte'')
      else if fs name then Inr ()
      else Inl OSError)"

definition test ::
  "CNN \<Rightarrow> test_batch list \<Rightarrow> string \<Rightarrow> earthquake_row list
     \<Rightarrow> (real list \<Rightarrow> real list \<Rightarrow> error + real) \<Rightarrow> (real \<Rightarrow> string) \<Rightarrow> file_system
     \<Rightarrow> error + csv_file \<times> real"
where
  "test model test_loader target df mean_absolute_error fmt fs =
     (let model = model\<lparr>training := False\<rparr>;
          label_mag = dict_zip (map Image df) (map Mag df);
          label_lon = dict_zip (map Image df) (map Lon df);
          label_lat = dict_zip (map Image df) (map Lat df);
          label_dep = dict_zip (map Image df) (map Depth df)
      in ebind (test_loop model target (label_mag, label_lon, label_lat, label_dep)
                  ([], [], []) test_loader)
           (\<lambda>(predictions, y_true, y_pred).
              ebind (mean_absolute_error y_true y_pred) (\<lambda>e.
                let MAE = py_round e 3;
                    name = ''Prediction('' @ target @ '') - MAE = '' @ fmt MAE @ ''.csv''
                in ebind (open_w fs name) (\<lambda>csvfile.
                     Inr (\<lparr> file_name = name,
                            fieldnames =
                              (if target = ''mag'' then [''id'', ''Mag'', ''prediction'']
                               else if target = ''dep'' then [''id'', ''Dep'', ''prediction'']
                               else if target = ''lon'' then [''id'', ''Lon'', ''prediction'']
                               else [''id'', ''Lat'', ''prediction'']),
                            rows = predictions \<rparr>,
                          MAE)))))"

section \<open>Notions used in the statements\<close>

text \<open>
  The \<open>(name, pred)\<close> pairs the inner loop of \<open>test\<close> visits in a pass, given the
  per-sample predictions of every batch.
\<close>

definition samples :: "test_batch list \<Rightarrow> tensor list list \<Rightarrow> (string \<times> tensor) list" where
  "samples bs predss =
     concat (map2 (\<lambda>b predicted. case b of (images, image_names, extra_params) \<Rightarrow>
                     zip image_names predicted) bs predss)"

text \<open>The four dictionaries \<open>test\<close> builds from the table.\<close>

definition label_tables :: "earthquake_row list \<Rightarrow> labels" where
  "label_tables df =
     (dict_zip (map Image df) (map Mag df), dict_zip (map Image df) (map Lon df),
      dict_zip (map Image df) (map Lat df), dict_zip (map Image df) (map Depth df))"

section \<open>Example inputs\<close>

text \<open>
  Concrete collaborators and inputs on which the theorems below are instantiated:
  extractors that return a constant embedding of the right width, an initialisation
  with zero weights and bias 5.0449, a mean-squared-error criterion, an optimizer step
  that raises the bias of the last layer by one, and the mean absolute error of two
  lists of numbers.
\<close>

definition example_extractor :: "nat \<Rightarrow> extractor" where
  "example_extractor d tr x =
     (case shape x of [] \<Rightarrow> Inl TorchError | n # _ \<Rightarrow> Inr (Tensor [n, d] (\<lambda>idx. 1)))"

definition example_backbones :: backbones where
  "example_backbones =
     \<lparr> resnet18 = example_extractor 512, efficientnet_b0 = example_extractor 1280,
       simple_cnn = example_extractor 64 \<rparr>"

definition example_init :: init where
  "example_init name = (\<lambda>out k. 0, \<lambda>out. 50449 / 10000)"

definition example_model :: "bool \<Rightarrow> CNN" where
  "example_model ue =
     \<lparr> model_type = ''simple_cnn'', use_extra_params = ue, training = True,
       feature_extractor = example_extractor 64,
       reduce = [new_Linear example_init ''reduce.0'' 64 128, ReLU],
       param_fc_2 =
         (if ue then Some [new_Linear example_init ''param_fc_2.0'' 2 16, ReLU,
                           new_Linear example_init ''param_fc_2.2'' 16 64, ReLU]
          else None),
       param_fc_3 =
         (if ue then Some [new_Linear example_init ''param_fc_3.0'' 3 16, ReLU,
                           new_Linear example_init ''param_fc_3.2'' 16 64, ReLU]
          else None),
       fc1 = (if ue then [new_Linear example_init ''fc1.0'' 192 64, ReLU]
              else [new_Linear example_init ''fc1.0'' 128 64, ReLU]),
       fc2 = new_Linear example_init ''fc2'' 64 1 \<rparr>"

definition example_images :: "nat \<Rightarrow> tensor" where
  "example_images n = Tensor [n, 3, 4, 4] (\<lambda>idx. 0)"

definition example_extra :: "nat \<Rightarrow> nat \<Rightarrow> tensor" where
  "example_extra n w = Tensor [n, w] (\<lambda>idx. 1)"

definition example_vector :: "real list \<Rightarrow> tensor" where
  "example_vector xs = Tensor [length xs] (\<lambda>idx. case idx of [] \<Rightarrow> 0 | i # _ \<Rightarrow> xs ! i)"

definition example_criterion :: criterion where
  "example_criterion outputs labels =
     (case shape outputs of
        [n] \<Rightarrow>
          if shape labels = [n] \<and> 0 < n
          then Inr (Tensor [] (\<lambda>idx. sum_list (map (\<lambda>i. (elem outputs [i] - elem labels [i])\<^sup>2)
                                                  [0..<n]) / real n))
          else Inl TorchError
      | _ \<Rightarrow> Inl TorchError)"

definition example_step :: "nat backward_step" where
  "example_step s b =
     (case s of (m, steps) \<Rightarrow>
        Inr ((case fc2 m of
                Linear i out W bias \<Rightarrow> m\<lparr>fc2 := Linear i out W (\<lambda>k. bias k + 1)\<rparr>
              | ReLU \<Rightarrow> m),
             Suc steps))"

definition example_loader :: "batch list" where
  "example_loader =
     [(example_images 2, example_vector [50449 / 10000, 60449 / 10000], example_extra 2 2),
      (example_images 1, example_vector [80449 / 10000], example_extra 1 2)]"

definition example_mean_absolute_error :: "real list \<Rightarrow> real list \<Rightarrow> error + real" where
  "example_mean_absolute_error y_true y_pred =
     (if length y_true \<noteq> length y_pred \<or> y_true = []
      then Inl (ValueError ''inconsistent or empty input'')
      else Inr (sum_list (map2 (\<lambda>y p. \<bar>y - p\<bar>) y_true y_pred) / real (length y_true)))"

definition example_mean_absolute_error_arrays ::
  "tensor list \<Rightarrow> tensor list \<Rightarrow> error + real"
where
  "example_mean_absolute_error_arrays y_true y_pred =
     (if list_all (\<lambda>t. shape t = []) (y_true @ y_pred)
      then example_mean_absolute_error (map (\<lambda>t. elem t []) y_true) (map (\<lambda>t. elem t []) y_pred)
      else Inl (ValueError ''not a list of scalars''))"

definition example_df :: "earthquake_row list" where
  "example_df =
     [\<lparr> Image = ''A'', Mag = 5, Lon = 1215 / 10, Lat = 235 / 10, Depth = 10 \<rparr>,
      \<lparr> Image = ''B'', Mag = 62 / 10, Lon = 12025 / 100, Lat = 24, Depth = 35 \<rparr>]"

definition example_test_loader :: "string list \<Rightarrow> test_batch list" where
  "example_test_loader names = [(example_images 2, names, example_extra 2 2)]"

definition example_fmt :: "real \<Rightarrow> string" where
  "example_fmt x = ''x''"

text \<open>
  A file system with one writable directory and no sub-directory: a name can be created
  when it has no path separator and at most 255 characters.
\<close>

definition example_fs :: file_system where
  "example_fs name = (CHR ''/'' \<notin> set name \<and> length name \<le> 255)"

section \<open>Auxiliary facts\<close>

lemma ebind_Inr [simp]: "ebind (Inr v) f = f v"
  by (simp add: ebind_def)

lemma ebind_Inl [simp]: "ebind (Inl e) f = Inl e"
  by (simp add: ebind_def)

lemma isl_ebind: "isl r \<Longrightarrow> isl (ebind r f)"
  by (cases r) simp_all

lemma apply_Linear_shape:
  "shape t = pre @ [i] \<Longrightarrow>
   \<exists>u. apply_layer (Linear i out W b) t = Inr u \<and> shape u = pre @ [out]"
  by simp

lemma encoder_shape:
  assumes "shape t = pre @ [i]"
  shows "\<exists>u. sequential [new_Linear ini n1 i h, ReLU, new_Linear ini n2 h out, ReLU] t = Inr u
             \<and> shape u = pre @ [out]"
  using assms by (simp add: new_Linear_def)

lemma block_shape:
  assumes "shape t = pre @ [i]"
  shows "\<exists>u. sequential [new_Linear ini n1 i out, ReLU] t = Inr u \<and> shape u = pre @ [out]"
  using assms by (simp add: new_Linear_def)

lemma init_fields:
  assumes "CNN_init bb ini mt ue = Inr m"
  obtains fe fd where "select_backbone bb mt = Inr (fe, fd)"
    and "feature_extractor (m\<lparr>training := tr\<rparr>) = fe"
    and "reduce (m\<lparr>training := tr\<rparr>) = [new_Linear ini ''reduce.0'' fd 128, ReLU]"
    and "use_extra_params (m\<lparr>training := tr\<rparr>) = ue"
    and "param_fc_2 (m\<lparr>training := tr\<rparr>) =
           (if ue then Some [new_Linear ini ''param_fc_2.0'' 2 16, ReLU,
                             new_Linear ini ''param_fc_2.2'' 16 64, ReLU] else None)"
    and "param_fc_3 (m\<lparr>training := tr\<rparr>) =
           (if ue then Some [new_Linear ini ''param_fc_3.0'' 3 16, ReLU,
                             new_Linear ini ''param_fc_3.2'' 16 64, ReLU] else None)"
    and "fc1 (m\<lparr>training := tr\<rparr>) =
           (if ue then [new_Linear ini ''fc1.0'' (128 + 64) 64, ReLU]
            else [new_Linear ini ''fc1.0'' 128 64, ReLU])"
    and "fc2 (m\<lparr>training := tr\<rparr>) = new_Linear ini ''fc2'' 64 1"
proof (cases "select_backbone bb mt")
  case (Inl e)
  with assms show ?thesis by (simp add: CNN_init_def)
next
  case (Inr p)
  obtain fe fd where p: "p = (fe, fd)" by (cases p)
  from assms Inr p have "m = \<lparr> model_type = mt,
             use_extra_params = ue,
             training = True,
             feature_extractor = fe,
             reduce = [new_Linear ini ''reduce.0'' fd 128, ReLU],
             param_fc_2 =
               (if ue
                then Some [new_Linear ini ''param_fc_2.0'' 2 16, ReLU,
                           new_Linear ini ''param_fc_2.2'' 16 64, ReLU]
                else None),
             param_fc_3 =
               (if ue
                then Some [new_Linear ini ''param_fc_3.0'' 3 16, ReLU,
                           new_Linear ini ''param_fc_3.2'' 16 64, ReLU]
                else None),
             fc1 =
               (if ue
                then [new_Linear ini ''fc1.0'' (128 + 64) 64, ReLU]
                else [new_Linear ini ''fc1.0'' 128 64, ReLU]),
             fc2 = new_Linear ini ''fc2'' 64 1 \<rparr>"
    by (simp add: CNN_init_def)
  then show ?thesis using that[of fe fd] Inr p by simp
qed

lemma head_shape:
  assumes "shape t = [B, i]"
  shows "\<exists>out. ebind (sequential [new_Linear ini n1 i 64, ReLU] t)
            (\<lambda>out. ebind (apply_layer (new_Linear ini n2 64 1) out) squeeze1) = Inr out
          \<and> shape out = [B]"
  using assms by (simp add: new_Linear_def squeeze1_def)

lemma cat1_shape:
  assumes "shape a = [B, i]" "shape b = [B, j]"
  shows "\<exists>c. cat1 a b = Inr c \<and> shape c = [B, i + j]"
  using assms by (simp add: cat1_def)

lemma forward_enabled_ok:
  assumes init: "CNN_init bb ini mt True = Inr m"
    and sel: "select_backbone bb mt = Inr (fe, fd)"
    and fe: "fe tr x = Inr f" and f: "shape f = [B, fd]"
    and e: "shape e = [B, w]" and w: "w = 2 \<or> w = 3"
  shows "\<exists>out. forward (m\<lparr>training := tr\<rparr>) x (Some e) = Inr out \<and> shape out = [B]"
proof -
  define m' where "m' = m\<lparr>training := tr\<rparr>"
  from init obtain fe' fd' where s': "select_backbone bb mt = Inr (fe', fd')"
    and flds: "feature_extractor m' = fe'"
      "reduce m' = [new_Linear ini ''reduce.0'' fd' 128, ReLU]"
      "use_extra_params m' = True"
      "param_fc_2 m' = Some [new_Linear ini ''param_fc_2.0'' 2 16, ReLU,
                           new_Linear ini ''param_fc_2.2'' 16 64, ReLU]"
      "param_fc_3 m' = Some [new_Linear ini ''param_fc_3.0'' 3 16, ReLU,
                           new_Linear ini ''param_fc_3.2'' 16 64, ReLU]"
      "fc1 m' = [new_Linear ini ''fc1.0'' (128 + 64) 64, ReLU]"
      "fc2 m' = new_Linear ini ''fc2'' 64 1"
    unfolding m'_def by (rule init_fields[where tr = tr]) simp
  have tr: "training m' = tr" by (simp add: m'_def)
  from sel s' have eq: "fe' = fe" "fd' = fd" by simp_all
  have "shape f = [B] @ [fd]" using f by simp
  from block_shape[OF this, of ini "''reduce.0''" 128]
  obtain r where r: "sequential (reduce m') f = Inr r" "shape r = [B, 128]"
    using flds eq by auto
  have "shape e = [B] @ [w]" using e by simp
  note enc = encoder_shape[OF this, of ini _ 16 _ 64]
  have "\<exists>p. encode_extra m' e = Inr p \<and> shape p = [B, 64]"
  proof (cases "w = 2")
    case True
    with enc[of "''param_fc_2.0''" "''param_fc_2.2''"] flds e show ?thesis
      by (simp add: encode_extra_def attr_def del: sequential.simps)
  next
    case False
    with w have "w = 3" by simp
    with enc[of "''param_fc_3.0''" "''param_fc_3.2''"] flds e show ?thesis
      by (simp add: encode_extra_def attr_def del: sequential.simps)
  qed
  then obtain p where p: "encode_extra m' e = Inr p" "shape p = [B, 64]"
    by blast
  from cat1_shape[OF r(2) p(2)] obtain c where c: "cat1 r p = Inr c" "shape c = [B, 128 + 64]"
    by auto
  from head_shape[OF c(2), of ini "''fc1.0''" "''fc2''"]
  have "\<exists>out. forward m' x (Some e) = Inr out \<and> shape out = [B]"
    using flds eq fe r p c tr by (simp add: forward_def del: sequential.simps)
  then show ?thesis by (simp add: m'_def)
qed

lemma isl_ebind_fun: "(\<And>v. isl (f v)) \<Longrightarrow> isl (ebind r f)"
  by (cases r) simp_all

lemma forward_enabled_None_fails:
  "use_extra_params m \<Longrightarrow> isl (forward m x None)"
  by (simp add: forward_def isl_ebind_fun)

lemma encode_extra_bad:
  "\<not> (2 \<le> length (shape e) \<and> (shape e ! 1 = 2 \<or> shape e ! 1 = 3)) \<Longrightarrow> isl (encode_extra m e)"
  by (auto simp: encode_extra_def)

lemma forward_enabled_bad_fails:
  "use_extra_params m \<Longrightarrow>
   \<not> (2 \<le> length (shape e) \<and> (shape e ! 1 = 2 \<or> shape e ! 1 = 3)) \<Longrightarrow>
   isl (forward m x (Some e))"
  by (simp add: forward_def isl_ebind_fun isl_ebind encode_extra_bad)

lemma forward_reduce_ok:
  assumes init: "CNN_init bb ini mt ue = Inr m"
    and sel: "select_backbone bb mt = Inr (fe, fd)"
    and fe: "fe tr x = Inr f" and f: "shape f = [B, fd]"
  shows "\<exists>r. forward (m\<lparr>training := tr\<rparr>) x aux =
           ebind (if ue
                  then (case aux of
                          None \<Rightarrow> Inl (ValueError ''extra_params is required but not provided.'')
                        | Some e \<Rightarrow> ebind (encode_extra (m\<lparr>training := tr\<rparr>) e) (\<lambda>p. cat1 r p))
                  else Inr r)
             (\<lambda>x. ebind (sequential (fc1 (m\<lparr>training := tr\<rparr>)) x) (\<lambda>out.
                   ebind (apply_layer (fc2 (m\<lparr>training := tr\<rparr>)) out) squeeze1))
         \<and> shape r = [B, 128]"
proof -
  define m' where "m' = m\<lparr>training := tr\<rparr>"
  from init obtain fe' fd' where s': "select_backbone bb mt = Inr (fe', fd')"
    and flds: "feature_extractor m' = fe'"
      "reduce m' = [new_Linear ini ''reduce.0'' fd' 128, ReLU]"
      "use_extra_params m' = ue"
    unfolding m'_def by (rule init_fields[where tr = tr]) simp
  have tr: "training m' = tr" by (simp add: m'_def)
  from sel s' have eq: "fe' = fe" "fd' = fd" by simp_all
  have "shape f = [B] @ [fd]" using f by simp
  from block_shape[OF this, of ini "''reduce.0''" 128]
  obtain r where r: "sequential (reduce m') f = Inr r" "shape r = [B, 128]"
    using flds eq by auto
  have "forward m' x aux =
           ebind (if ue
                  then (case aux of
                          None \<Rightarrow> Inl (ValueError ''extra_params is required but not provided.'')
                        | Some e \<Rightarrow> ebind (encode_extra m' e) (\<lambda>p. cat1 r p))
                  else Inr r)
             (\<lambda>x. ebind (sequential (fc1 m') x) (\<lambda>out.
                   ebind (apply_layer (fc2 m') out) squeeze1))"
    using flds eq fe r tr by (simp add: forward_def del: sequential.simps)
  with r(2) show ?thesis unfolding m'_def by blast
qed

lemma forward_enabled_None:
  assumes "CNN_init bb ini mt True = Inr m"
    and "select_backbone bb mt = Inr (fe, fd)"
    and "fe tr x = Inr f" and "shape f = [B, fd]"
  shows "forward (m\<lparr>training := tr\<rparr>) x None =
           Inl (ValueError ''extra_params is required but not provided.'')"
  using forward_reduce_ok[OF assms, of None] by auto

lemma encode_extra_width:
  "2 \<le> length (shape e) \<Longrightarrow> shape e ! 1 \<noteq> 2 \<Longrightarrow> shape e ! 1 \<noteq> 3 \<Longrightarrow>
   encode_extra m e = Inl (ValueError ''error - extra_params shape'')"
  by (simp add: encode_extra_def)

lemma forward_enabled_width:
  assumes "CNN_init bb ini mt True = Inr m"
    and "select_backbone bb mt = Inr (fe, fd)"
    and "fe tr x = Inr f" and "shape f = [B, fd]"
    and "2 \<le> length (shape e)" "shape e ! 1 \<noteq> 2" "shape e ! 1 \<noteq> 3"
  shows "forward (m\<lparr>training := tr\<rparr>) x (Some e) =
           Inl (ValueError ''error - extra_params shape'')"
  using forward_reduce_ok[OF assms(1-4), of "Some e"] encode_extra_width[OF assms(5-7)]
  by auto

lemma forward_disabled_ok:
  assumes init: "CNN_init bb ini mt False = Inr m"
    and sel: "select_backbone bb mt = Inr (fe, fd)"
    and fe: "fe tr x = Inr f" and f: "shape f = [B, fd]"
  shows "\<exists>out. forward (m\<lparr>training := tr\<rparr>) x aux = Inr out \<and> shape out = [B]"
proof -
  from forward_reduce_ok[OF assms, of aux] obtain r where
    fw: "forward (m\<lparr>training := tr\<rparr>) x aux =
           ebind (sequential (fc1 (m\<lparr>training := tr\<rparr>)) r) (\<lambda>out.
                   ebind (apply_layer (fc2 (m\<lparr>training := tr\<rparr>)) out) squeeze1)"
    and r: "shape r = [B, 128]"
    by auto
  from init have flds: "fc1 (m\<lparr>training := tr\<rparr>) = [new_Linear ini ''fc1.0'' 128 64, ReLU]"
      "fc2 (m\<lparr>training := tr\<rparr>) = new_Linear ini ''fc2'' 64 1"
    by (rule init_fields[where tr = tr], simp)+
  from head_shape[OF r, of ini "''fc1.0''" "''fc2''"] show ?thesis
    unfolding fw flds .
qed

lemma forward_disabled_ignores:
  "\<not> use_extra_params m \<Longrightarrow> forward m x aux = forward m x None"
  by (simp add: forward_def)

lemma init_use_extra:
  "CNN_init bb ini mt ue = Inr m \<Longrightarrow> use_extra_params (m\<lparr>training := tr\<rparr>) = ue"
  by (rule init_fields[where tr = tr]) simp

lemma ebind_eq_Inr: "ebind r f = Inr y \<longleftrightarrow> (\<exists>v. r = Inr v \<and> f v = Inr y)"
  by (cases r) simp_all

lemma train_loop_acc:
  "batch_losses crit step s bs = Inr ls \<Longrightarrow>
   \<exists>s'. train_loop crit step s tls tn bs =
           Inr (s', tls + sum_list (map (\<lambda>(l, n). l * real n) ls), tn + sum_list (map snd ls))"
proof (induction bs arbitrary: s tls tn ls)
  case Nil
  then show ?case by simp
next
  case (Cons b bs)
  from Cons.prems obtain s' l n ls' where
    st: "train_step crit step s b = Inr (s', l, n)"
    and rest: "batch_losses crit step s' bs = Inr ls'"
    and ls: "ls = (l, n) # ls'"
    by (auto simp: ebind_eq_Inr)
  from Cons.IH[OF rest, of "tls + l * real n" "tn + n"] st ls
  show ?case by (auto simp: add.assoc)
qed

lemma train_loop_fail:
  "batch_losses crit step s bs = Inl e \<Longrightarrow> train_loop crit step s tls tn bs = Inl e"
proof (induction bs arbitrary: s tls tn)
  case Nil
  then show ?case by simp
next
  case (Cons b bs)
  show ?case
  proof (cases "train_step crit step s b")
    case (Inl e')
    with Cons.prems show ?thesis by simp
  next
    case (Inr r)
    obtain s' l n where r: "r = (s', l, n)" by (cases r)
    with Inr Cons.prems have "batch_losses crit step s' bs = Inl e"
      by (cases "batch_losses crit step s' bs") simp_all
    from Cons.IH[OF this] Inr r show ?thesis by simp
  qed
qed

lemma validate_loop_acc:
  "list_all2 (\<lambda>b r. validate_step crit m b = Inr r) bs rs \<Longrightarrow>
   validate_loop crit m tls tn al ao bs =
     Inr (tls + sum_list (map (\<lambda>(l, n, ls, os). l * real n) rs),
          tn + sum_list (map (\<lambda>(l, n, ls, os). n) rs),
          al @ concat (map (\<lambda>(l, n, ls, os). ls) rs),
          ao @ concat (map (\<lambda>(l, n, ls, os). os) rs))"
proof (induction bs rs arbitrary: tls tn al ao rule: list_all2_induct)
  case Nil
  then show ?case by simp
next
  case (Cons b bs r rs)
  obtain l n ls os where r: "r = (l, n, ls, os)" by (cases r)
  from Cons.hyps(1) r Cons.IH[of "tls + l * real n" "tn + n" "al @ ls" "ao @ os"]
  show ?case by (simp add: add.assoc)
qed

lemma dom_fold_upd:
  "dom (fold (\<lambda>(k, v) d. d(k \<mapsto> v)) kvs d0) = dom d0 \<union> fst ` set kvs"
  by (induction kvs arbitrary: d0) auto

lemma dom_dict_zip: "dom (dict_zip (map Image df) (map f df)) = Image ` set df"
proof -
  have "zip (map Image df) (map f df) = map (\<lambda>r. (Image r, f r)) df"
    by (induction df) simp_all
  then show ?thesis by (simp add: dict_zip_def dom_fold_upd image_image)
qed

lemma getitem_absent:
  "name \<notin> Image ` set df \<Longrightarrow>
   getitem (dict_zip (map Image df) (map f df)) name = Inl (KeyError name)"
  using dom_dict_zip[of df f] by (auto simp: getitem_def split: option.splits)

lemma getitem_present:
  "name \<in> Image ` set df \<Longrightarrow>
   \<exists>v. getitem (dict_zip (map Image df) (map f df)) name = Inr v"
  using dom_dict_zip[of df f] by (auto simp: getitem_def split: option.splits)

lemma record_sample_absent:
  "name \<notin> Image ` set df \<Longrightarrow>
   record_sample target (label_tables df) name pred = Inl (KeyError name)"
  by (simp add: record_sample_def label_tables_def getitem_absent)

lemma record_sample_present:
  "name \<in> Image ` set df \<Longrightarrow> item pred = Inr p \<Longrightarrow>
   \<exists>r. record_sample target (label_tables df) name pred = Inr r"
  using getitem_present[of name df Mag] getitem_present[of name df Lon]
    getitem_present[of name df Lat] getitem_present[of name df Depth]
  by (auto simp: record_sample_def label_tables_def)

lemma sample_loop_append:
  "sample_loop target tbls acc (xs @ ys) =
     ebind (sample_loop target tbls acc xs) (\<lambda>acc'. sample_loop target tbls acc' ys)"
proof (induction xs arbitrary: acc)
  case Nil
  show ?case by simp
next
  case (Cons x xs)
  obtain name pred where x: "x = (name, pred)" by (cases x)
  obtain P T Y where acc: "acc = (P, T, Y)" by (cases acc)
  show ?case
  proof (cases "record_sample target tbls name pred")
    case (Inl e)
    with x acc show ?thesis by simp
  next
    case (Inr r)
    obtain row t p where "r = (row, t, p)" by (cases r)
    with Inr x acc Cons.IH show ?thesis by simp
  qed
qed

lemma test_loop_samples:
  "list_all2 (\<lambda>b predicted. case b of (images, image_names, extra_params) \<Rightarrow>
       ebind (forward m images (Some extra_params)) iter_tensor = Inr predicted) bs predss \<Longrightarrow>
   test_loop m target tbls acc bs = sample_loop target tbls acc (samples bs predss)"
proof (induction bs predss arbitrary: acc rule: list_all2_induct)
  case Nil
  show ?case by (simp add: samples_def)
next
  case (Cons b bs predicted predss)
  obtain images image_names extra_params where b: "b = (images, image_names, extra_params)"
    by (cases b)
  from Cons.hyps(1) b obtain outputs where
    f: "forward m images (Some extra_params) = Inr outputs"
    and it: "iter_tensor outputs = Inr predicted"
    by (auto simp: ebind_eq_Inr)
  have s: "samples (b # bs) (predicted # predss) = zip image_names predicted @ samples bs predss"
    by (simp add: samples_def b)
  show ?case
    unfolding s sample_loop_append using f it b Cons.IH
    by (cases "sample_loop target tbls acc (zip image_names predicted)") simp_all
qed

lemma sample_loop_ok:
  assumes rs: "\<And>name pred v p. tbl name = Some v \<Longrightarrow> item pred = Inr p \<Longrightarrow>
                 record_sample target tbls name pred = Inr (mk name v p, v, rnd p)"
  shows "list_all2 (\<lambda>(name, pred) (name', v, p). name' = name \<and> tbl name = Some v \<and> item pred = Inr p)
           pairs triples \<Longrightarrow>
         sample_loop target tbls (P, T, Y) pairs =
           Inr (P @ map (\<lambda>(n, v, p). mk n v p) triples,
                T @ map (\<lambda>(n, v, p). v) triples,
                Y @ map (\<lambda>(n, v, p). rnd p) triples)"
proof (induction pairs triples arbitrary: P T Y rule: list_all2_induct)
  case Nil
  show ?case by simp
next
  case (Cons x xs y ys)
  obtain name pred where x: "x = (name, pred)" by (cases x)
  obtain n v p where y: "y = (n, v, p)" by (cases y)
  from Cons.hyps(1) x y have h: "n = name" "tbl name = Some v" "item pred = Inr p" by simp_all
  from rs[OF h(2,3)] Cons.IH[of "P @ [mk name v p]" "T @ [v]" "Y @ [rnd p]"] x y h(1)
  show ?case by simp
qed

lemma sample_loop_absent:
  "\<exists>x\<in>set pairs. fst x \<notin> Image ` set df \<Longrightarrow>
   \<forall>x\<in>set pairs. \<exists>p. item (snd x) = Inr p \<Longrightarrow>
   \<exists>name. name \<in> fst ` set pairs \<and> name \<notin> Image ` set df \<and>
      sample_loop target (label_tables df) acc pairs = Inl (KeyError name)"
proof (induction pairs arbitrary: acc)
  case Nil
  then show ?case by simp
next
  case (Cons x xs)
  obtain name pred where x: "x = (name, pred)" by (cases x)
  obtain P T Y where acc: "acc = (P, T, Y)" by (cases acc)
  show ?case
  proof (cases "name \<in> Image ` set df")
    case False
    with x acc record_sample_absent[OF False, of target pred] show ?thesis
      by (intro exI[of _ name]) simp
  next
    case True
    from Cons.prems(2) x obtain p where "item pred = Inr p" by auto
    from record_sample_present[OF True this, of target] obtain row t q where
      r: "record_sample target (label_tables df) name pred = Inr (row, t, q)"
      by (metis prod_cases3)
    from Cons.prems(1) True x have "\<exists>x\<in>set xs. fst x \<notin> Image ` set df" by auto
    moreover from Cons.prems(2) have "\<forall>x\<in>set xs. \<exists>p. item (snd x) = Inr p" by simp
    ultimately obtain n where n: "n \<in> fst ` set xs" "n \<notin> Image ` set df"
      "sample_loop target (label_tables df) (P @ [row], T @ [t], Y @ [q]) xs = Inl (KeyError n)"
      using Cons.IH by blast
    with x acc r show ?thesis by (intro exI[of _ n]) simp
  qed
qed

lemma test_unfold:
  "test model test_loader target df mae fmt fs =
     ebind (test_loop (model\<lparr>training := False\<rparr>) target (label_tables df) ([], [], [])
              test_loader)
       (\<lambda>(predictions, y_true, y_pred).
          ebind (mae y_true y_pred) (\<lambda>e.
            ebind (open_w fs (''Prediction('' @ target @ '') - MAE = '' @ fmt (py_round e 3)
                               @ ''.csv''))
              (\<lambda>csvfile.
                 Inr (\<lparr> file_name = ''Prediction('' @ target @ '') - MAE = ''
                                        @ fmt (py_round e 3) @ ''.csv'',
                        fieldnames =
                          (if target = ''mag'' then [''id'', ''Mag'', ''prediction'']
                           else if target = ''dep'' then [''id'', ''Dep'', ''prediction'']
                           else if target = ''lon'' then [''id'', ''Lon'', ''prediction'']
                           else [''id'', ''Lat'', ''prediction'']),
                        rows = predictions \<rparr>,
                      py_round e 3))))"
  by (simp add: test_def label_tables_def Let_def)

lemma test_ok:
  assumes rs: "\<And>name pred v p. tbl name = Some v \<Longrightarrow> item pred = Inr p \<Longrightarrow>
                 record_sample target (label_tables df) name pred =
                   Inr ([(''id'', Str name), (col, Num v), (''prediction'', Num (py_round p rd))],
                        v, py_round p md)"
    and batches: "list_all2 (\<lambda>b predicted. case b of (images, image_names, extra_params) \<Rightarrow>
         ebind (forward (model\<lparr>training := False\<rparr>) images (Some extra_params)) iter_tensor
           = Inr predicted) test_loader predss"
    and found: "list_all2 (\<lambda>(name, pred) (name', v, p).
                   name' = name \<and> tbl name = Some v \<and> item pred = Inr p)
                 (samples test_loader predss) triples"
    and mae: "mae (map (\<lambda>(n, v, p). v) triples) (map (\<lambda>(n, v, p). py_round p md) triples) = Inr e"
  shows "test model test_loader target df mae fmt fs =
           ebind (open_w fs (''Prediction('' @ target @ '') - MAE = '' @ fmt (py_round e 3)
                              @ ''.csv''))
             (\<lambda>csvfile.
                Inr (\<lparr> file_name = ''Prediction('' @ target @ '') - MAE = ''
                                       @ fmt (py_round e 3) @ ''.csv'',
                       fieldnames =
                         (if target = ''mag'' then [''id'', ''Mag'', ''prediction'']
                          else if target = ''dep'' then [''id'', ''Dep'', ''prediction'']
                          else if target = ''lon'' then [''id'', ''Lon'', ''prediction'']
                          else [''id'', ''Lat'', ''prediction'']),
                       rows = map (\<lambda>(n, v, p). [(''id'', Str n), (col, Num v),
                                                  (''prediction'', Num (py_round p rd))])
                                triples \<rparr>,
                     py_round e 3))"
proof -
  have "test_loop (model\<lparr>training := False\<rparr>) target (label_tables df) ([], [], []) test_loader =
          Inr ([] @ map (\<lambda>(n, v, p). [(''id'', Str n), (col, Num v),
                                        (''prediction'', Num (py_round p rd))]) triples,
               [] @ map (\<lambda>(n, v, p). v) triples,
               [] @ map (\<lambda>(n, v, p). py_round p md) triples)"
    unfolding test_loop_samples[OF batches]
    by (rule sample_loop_ok[OF rs found])
  with mae show ?thesis by (simp add: test_unfold)
qed

lemma record_sample_mag:
  "dict_zip (map Image df) (map Mag df) name = Some v \<Longrightarrow> item pred = Inr p \<Longrightarrow>
   record_sample ''mag'' (label_tables df) name pred =
     Inr ([(''id'', Str name), (''Mag'', Num v), (''prediction'', Num (py_round p 1))],
          v, py_round p 1)"
  by (simp add: record_sample_def label_tables_def getitem_def)

lemma record_sample_dep:
  "dict_zip (map Image df) (map Depth df) name = Some v \<Longrightarrow> item pred = Inr p \<Longrightarrow>
   record_sample ''dep'' (label_tables df) name pred =
     Inr ([(''id'', Str name), (''Dep'', Num v), (''prediction'', Num (py_round p 1))],
          v, py_round p 1)"
  by (simp add: record_sample_def label_tables_def getitem_def)

lemma record_sample_lon:
  "dict_zip (map Image df) (map Lon df) name = Some v \<Longrightarrow> item pred = Inr p \<Longrightarrow>
   record_sample ''lon'' (label_tables df) name pred =
     Inr ([(''id'', Str name), (''Lon'', Num v), (''prediction'', Num (py_round p 3))],
          v, py_round p 2)"
  by (simp add: record_sample_def label_tables_def getitem_def)

lemma record_sample_else:
  "target \<noteq> ''mag'' \<Longrightarrow> target \<noteq> ''dep'' \<Longrightarrow> target \<noteq> ''lon'' \<Longrightarrow>
   dict_zip (map Image df) (map Lat df) name = Some v \<Longrightarrow> item pred = Inr p \<Longrightarrow>
   record_sample target (label_tables df) name pred =
     Inr ([(''id'', Str name), (''Lat'', Num v), (''prediction'', Num (py_round p 3))],
          v, py_round p 2)"
  by (simp add: record_sample_def label_tables_def getitem_def)

lemma record_sample_as_lat:
  "target \<noteq> ''mag'' \<Longrightarrow> target \<noteq> ''dep'' \<Longrightarrow> target \<noteq> ''lon'' \<Longrightarrow>
   record_sample target tbls name pred = record_sample ''lat'' tbls name pred"
  by (simp add: record_sample_def)

lemma sample_loop_as_lat:
  assumes "target \<noteq> ''mag''" "target \<noteq> ''dep''" "target \<noteq> ''lon''"
  shows "sample_loop target tbls acc pairs = sample_loop ''lat'' tbls acc pairs"
proof (induction pairs arbitrary: acc)
  case Nil
  show ?case by simp
next
  case (Cons x xs)
  obtain name pred where x: "x = (name, pred)" by (cases x)
  obtain P T Y where acc: "acc = (P, T, Y)" by (cases acc)
  show ?case
    unfolding x acc using Cons.IH
    by (simp add: record_sample_as_lat[OF assms])
qed

lemma test_loop_as_lat:
  assumes "target \<noteq> ''mag''" "target \<noteq> ''dep''" "target \<noteq> ''lon''"
  shows "test_loop m target tbls acc bs = test_loop m ''lat'' tbls acc bs"
proof (induction bs arbitrary: acc)
  case Nil
  show ?case by simp
next
  case (Cons b bs)
  obtain images image_names extra_params where b: "b = (images, image_names, extra_params)"
    by (cases b)
  show ?case
    unfolding b using Cons.IH
    by (simp add: sample_loop_as_lat[OF assms])
qed

lemma example_init_model:
  "CNN_init example_backbones example_init ''simple_cnn'' ue = Inr (example_model ue)"
  by (simp add: CNN_init_def select_backbone_def example_backbones_def example_model_def)

lemma example_select:
  "select_backbone example_backbones ''simple_cnn'' = Inr (example_extractor 64, 64)"
  by (simp add: select_backbone_def example_backbones_def)

lemma example_upt: "[0..<1] = [0]" "[0..<2] = [0, 1]"
  by (simp_all add: upt_rec)

lemmas example_forward_defs =
  forward_def example_model_def example_images_def example_extra_def example_extractor_def
  new_Linear_def example_init_def encode_extra_def attr_def cat1_def squeeze1_def

section \<open>The claims\<close>

text \<open>
  Claim C1. For every model constructed with auxiliary parameters enabled (in either
  mode, with any weights): \<open>forward\<close> without an auxiliary tensor never returns a
  result, and neither does \<open>forward\<close> with an auxiliary tensor whose second dimension
  is not 2 or 3. When the feature extractor accepts the image batch and returns one
  embedding of width \<open>feature_dim\<close> per sample, the first failure is the \<open>ValueError\<close>
  for the missing input, the second (for a tensor with a second dimension) is the
  \<open>ValueError\<close> for the shape, and a call with a \<open>B \<times> 2\<close> or \<open>B \<times> 3\<close> auxiliary
  tensor returns a tensor of shape \<open>[B]\<close>: one scalar per sample, the trailing
  singleton dimension removed.
\<close>

theorem forward_extra_params_enabled:
  assumes "CNN_init bb ini mt True = Inr m"
  shows "isl (forward (m\<lparr>training := tr\<rparr>) x None)
     \<and> (\<not> (2 \<le> length (shape e) \<and> (shape e ! 1 = 2 \<or> shape e ! 1 = 3)) \<longrightarrow>
          isl (forward (m\<lparr>training := tr\<rparr>) x (Some e)))
     \<and> (select_backbone bb mt = Inr (fe, fd) \<and> fe tr x = Inr f \<and> size0 x = Inr B
          \<and> shape f = [B, fd] \<longrightarrow>
          forward (m\<lparr>training := tr\<rparr>) x None =
            Inl (ValueError ''extra_params is required but not provided.'')
          \<and> (2 \<le> length (shape e) \<and> shape e ! 1 \<noteq> 2 \<and> shape e ! 1 \<noteq> 3 \<longrightarrow>
               forward (m\<lparr>training := tr\<rparr>) x (Some e) =
                 Inl (ValueError ''error - extra_params shape''))
          \<and> (shape e = [B, w] \<and> (w = 2 \<or> w = 3) \<longrightarrow>
               (\<exists>out. forward (m\<lparr>training := tr\<rparr>) x (Some e) = Inr out \<and> shape out = [B])))"
proof -
  have ue: "use_extra_params (m\<lparr>training := tr\<rparr>)"
    using init_use_extra[OF assms, of tr] by simp
  show ?thesis
  proof (intro conjI impI)
    show "isl (forward (m\<lparr>training := tr\<rparr>) x None)"
      using ue by (rule forward_enabled_None_fails)
  next
    assume "\<not> (2 \<le> length (shape e) \<and> (shape e ! 1 = 2 \<or> shape e ! 1 = 3))"
    with ue show "isl (forward (m\<lparr>training := tr\<rparr>) x (Some e))"
      by (rule forward_enabled_bad_fails)
  next
    assume "select_backbone bb mt = Inr (fe, fd) \<and> fe tr x = Inr f \<and> size0 x = Inr B
          \<and> shape f = [B, fd]"
    then show "forward (m\<lparr>training := tr\<rparr>) x None =
            Inl (ValueError ''extra_params is required but not provided.'')"
      using forward_enabled_None[OF assms] by blast
  next
    assume "select_backbone bb mt = Inr (fe, fd) \<and> fe tr x = Inr f \<and> size0 x = Inr B
          \<and> shape f = [B, fd]"
      and "2 \<le> length (shape e) \<and> shape e ! 1 \<noteq> 2 \<and> shape e ! 1 \<noteq> 3"
    then show "forward (m\<lparr>training := tr\<rparr>) x (Some e) =
                 Inl (ValueError ''error - extra_params shape'')"
      using forward_enabled_width[OF assms] by blast
  next
    assume "select_backbone bb mt = Inr (fe, fd) \<and> fe tr x = Inr f \<and> size0 x = Inr B
          \<and> shape f = [B, fd]"
      and "shape e = [B, w] \<and> (w = 2 \<or> w = 3)"
    then show "\<exists>out. forward (m\<lparr>training := tr\<rparr>) x (Some e) = Inr out \<and> shape out = [B]"
      using forward_enabled_ok[OF assms] by blast
  qed
qed

theorem forward_extra_params_enabled_witness:
  "CNN_init example_backbones example_init ''simple_cnn'' True = Inr (example_model True)
   \<and> forward ((example_model True)\<lparr>training := False\<rparr>) (example_images 2) None
       = Inl (ValueError ''extra_params is required but not provided.'')
   \<and> forward ((example_model True)\<lparr>training := False\<rparr>) (example_images 2)
         (Some (example_extra 2 4))
       = Inl (ValueError ''error - extra_params shape'')
   \<and> (\<exists>out. forward ((example_model True)\<lparr>training := False\<rparr>) (example_images 2)
               (Some (example_extra 2 3)) = Inr out \<and> shape out = [2])"
proof -
  note i = example_init_model[of True]
  have x: "example_extractor 64 False (example_images 2) = Inr (Tensor [2, 64] (\<lambda>idx. 1))"
    "size0 (example_images 2) = Inr 2"
    by (simp_all add: example_extractor_def example_images_def size0_def)
  have e: "shape (example_extra 2 4) = [2, 4]" "shape (example_extra 2 3) = [2, 3]"
    by (simp_all add: example_extra_def)
  from forward_extra_params_enabled[OF i, where tr = False and x = "example_images 2"
      and e = "example_extra 2 4" and fe = "example_extractor 64" and fd = 64
      and f = "Tensor [2, 64] (\<lambda>idx. 1)" and B = 2 and w = 4]
    forward_extra_params_enabled[OF i, where tr = False and x = "example_images 2"
      and e = "example_extra 2 3" and fe = "example_extractor 64" and fd = 64
      and f = "Tensor [2, 64] (\<lambda>idx. 1)" and B = 2 and w = 3]
  show ?thesis using i x e example_select by simp
qed

text \<open>
  Claim C2, as stated: one encoder variant is fixed at construction and every call whose
  auxiliary width differs from it fails. The constructor creates both encoders, and one
  and the same constructed model accepts a width-2 and a width-3 auxiliary tensor; so
  whichever width is taken as the fixed one, a call of the other width succeeds.
\<close>

theorem single_encoder_variant_counterexample:
  "CNN_init example_backbones example_init ''simple_cnn'' True = Inr (example_model True)
   \<and> map_sum id shape (forward (example_model True) (example_images 2)
                         (Some (example_extra 2 2))) = Inr [2]
   \<and> map_sum id shape (forward (example_model True) (example_images 2)
                         (Some (example_extra 2 3))) = Inr [2]"
  by (simp add: example_init_model) (simp add: example_forward_defs)

text \<open>
  Claim C2, amended. For every model constructed with auxiliary parameters enabled, both
  encoders (for width 2 and for width 3) are created at construction time; each call of
  \<open>forward\<close> selects one by the width of the auxiliary tensor it receives: a width-2
  tensor is passed through \<open>param_fc_2\<close> and a width-3 tensor through \<open>param_fc_3\<close>,
  and the encoding is concatenated to the reduced image embedding before the head. So the
  same model succeeds with either width (on an image batch the extractor accepts), and a
  call fails when the auxiliary tensor has no second dimension or one that is neither 2
  nor 3.
\<close>

theorem forward_encoder_dispatch:
  assumes "CNN_init bb ini mt True = Inr m"
  shows "param_fc_2 m = Some [new_Linear ini ''param_fc_2.0'' 2 16, ReLU,
                              new_Linear ini ''param_fc_2.2'' 16 64, ReLU]
     \<and> param_fc_3 m = Some [new_Linear ini ''param_fc_3.0'' 3 16, ReLU,
                              new_Linear ini ''param_fc_3.2'' 16 64, ReLU]
     \<and> (2 \<le> length (shape e) \<and> shape e ! 1 = 2 \<longrightarrow>
          encode_extra (m\<lparr>training := tr\<rparr>) e =
            sequential [new_Linear ini ''param_fc_2.0'' 2 16, ReLU,
                        new_Linear ini ''param_fc_2.2'' 16 64, ReLU] e)
     \<and> (2 \<le> length (shape e) \<and> shape e ! 1 = 3 \<longrightarrow>
          encode_extra (m\<lparr>training := tr\<rparr>) e =
            sequential [new_Linear ini ''param_fc_3.0'' 3 16, ReLU,
                        new_Linear ini ''param_fc_3.2'' 16 64, ReLU] e)
     \<and> (select_backbone bb mt = Inr (fe, fd) \<and> fe tr x = Inr f \<longrightarrow>
          forward (m\<lparr>training := tr\<rparr>) x (Some e) =
            ebind (sequential [new_Linear ini ''reduce.0'' fd 128, ReLU] f) (\<lambda>r.
            ebind (ebind (encode_extra (m\<lparr>training := tr\<rparr>) e) (\<lambda>p. cat1 r p)) (\<lambda>c.
            ebind (sequential [new_Linear ini ''fc1.0'' (128 + 64) 64, ReLU] c) (\<lambda>out.
            ebind (apply_layer (new_Linear ini ''fc2'' 64 1) out) squeeze1))))
     \<and> (select_backbone bb mt = Inr (fe, fd) \<and> fe tr x = Inr f \<and> shape f = [B, fd]
          \<and> shape ea = [B, 2] \<and> shape eb = [B, 3] \<longrightarrow>
          \<not> isl (forward (m\<lparr>training := tr\<rparr>) x (Some ea))
          \<and> \<not> isl (forward (m\<lparr>training := tr\<rparr>) x (Some eb)))
     \<and> (\<not> (2 \<le> length (shape e) \<and> (shape e ! 1 = 2 \<or> shape e ! 1 = 3)) \<longrightarrow>
          isl (forward (m\<lparr>training := tr\<rparr>) x (Some e)))"
proof -
  define m' where "m' = m\<lparr>training := tr\<rparr>"
  from assms obtain fe' fd' where s': "select_backbone bb mt = Inr (fe', fd')"
    and flds: "feature_extractor m' = fe'"
      "reduce m' = [new_Linear ini ''reduce.0'' fd' 128, ReLU]"
      "use_extra_params m' = True"
      "param_fc_2 m' = Some [new_Linear ini ''param_fc_2.0'' 2 16, ReLU,
                           new_Linear ini ''param_fc_2.2'' 16 64, ReLU]"
      "param_fc_3 m' = Some [new_Linear ini ''param_fc_3.0'' 3 16, ReLU,
                           new_Linear ini ''param_fc_3.2'' 16 64, ReLU]"
      "fc1 m' = [new_Linear ini ''fc1.0'' (128 + 64) 64, ReLU]"
      "fc2 m' = new_Linear ini ''fc2'' 64 1"
    unfolding m'_def by (rule init_fields[where tr = tr]) simp
  have tr: "training m' = tr" by (simp add: m'_def)
  have p2: "param_fc_2 m = Some [new_Linear ini ''param_fc_2.0'' 2 16, ReLU,
                              new_Linear ini ''param_fc_2.2'' 16 64, ReLU]"
    using flds(4) by (simp add: m'_def)
  have p3: "param_fc_3 m = Some [new_Linear ini ''param_fc_3.0'' 3 16, ReLU,
                              new_Linear ini ''param_fc_3.2'' 16 64, ReLU]"
    using flds(5) by (simp add: m'_def)
  have e2: "2 \<le> length (shape e) \<and> shape e ! 1 = 2 \<longrightarrow>
          encode_extra m' e =
            sequential [new_Linear ini ''param_fc_2.0'' 2 16, ReLU,
                        new_Linear ini ''param_fc_2.2'' 16 64, ReLU] e"
    using flds(4) by (simp add: encode_extra_def attr_def del: sequential.simps)
  have e3: "2 \<le> length (shape e) \<and> shape e ! 1 = 3 \<longrightarrow>
          encode_extra m' e =
            sequential [new_Linear ini ''param_fc_3.0'' 3 16, ReLU,
                        new_Linear ini ''param_fc_3.2'' 16 64, ReLU] e"
    using flds(5) by (simp add: encode_extra_def attr_def del: sequential.simps)
  have fw: "select_backbone bb mt = Inr (fe, fd) \<and> fe tr x = Inr f \<longrightarrow>
          forward m' x (Some e) =
            ebind (sequential [new_Linear ini ''reduce.0'' fd 128, ReLU] f) (\<lambda>r.
            ebind (ebind (encode_extra m' e) (\<lambda>p. cat1 r p)) (\<lambda>c.
            ebind (sequential [new_Linear ini ''fc1.0'' (128 + 64) 64, ReLU] c) (\<lambda>out.
            ebind (apply_layer (new_Linear ini ''fc2'' 64 1) out) squeeze1)))"
    using s' flds tr by (auto simp add: forward_def simp del: sequential.simps)
  have ok: "select_backbone bb mt = Inr (fe, fd) \<and> fe tr x = Inr f \<and> shape f = [B, fd]
          \<and> shape ea = [B, 2] \<and> shape eb = [B, 3] \<longrightarrow>
          \<not> isl (forward m' x (Some ea)) \<and> \<not> isl (forward m' x (Some eb))"
  proof (intro impI)
    assume h: "select_backbone bb mt = Inr (fe, fd) \<and> fe tr x = Inr f \<and> shape f = [B, fd]
          \<and> shape ea = [B, 2] \<and> shape eb = [B, 3]"
    then have "\<exists>out. forward m' x (Some ea) = Inr out \<and> shape out = [B]"
      unfolding m'_def using forward_enabled_ok[OF assms, of fe fd tr x f B ea 2] by blast
    moreover from h have "\<exists>out. forward m' x (Some eb) = Inr out \<and> shape out = [B]"
      unfolding m'_def using forward_enabled_ok[OF assms, of fe fd tr x f B eb 3] by blast
    ultimately show "\<not> isl (forward m' x (Some ea)) \<and> \<not> isl (forward m' x (Some eb))"
      by auto
  qed
  have bad: "\<not> (2 \<le> length (shape e) \<and> (shape e ! 1 = 2 \<or> shape e ! 1 = 3)) \<longrightarrow>
          isl (forward m' x (Some e))"
    using flds(3) by (intro impI forward_enabled_bad_fails) simp_all
  from p2 p3 e2 e3 fw ok bad show ?thesis unfolding m'_def by (intro conjI)
qed

theorem forward_encoder_dispatch_witness:
  "CNN_init example_backbones example_init ''simple_cnn'' True = Inr (example_model True)
   \<and> encode_extra ((example_model True)\<lparr>training := True\<rparr>) (example_extra 2 2) =
       sequential [new_Linear example_init ''param_fc_2.0'' 2 16, ReLU,
                   new_Linear example_init ''param_fc_2.2'' 16 64, ReLU] (example_extra 2 2)
   \<and> encode_extra ((example_model True)\<lparr>training := True\<rparr>) (example_extra 2 3) =
       sequential [new_Linear example_init ''param_fc_3.0'' 3 16, ReLU,
                   new_Linear example_init ''param_fc_3.2'' 16 64, ReLU] (example_extra 2 3)
   \<and> \<not> isl (forward ((example_model True)\<lparr>training := True\<rparr>) (example_images 2)
              (Some (example_extra 2 2)))
   \<and> \<not> isl (forward ((example_model True)\<lparr>training := True\<rparr>) (example_images 2)
              (Some (example_extra 2 3)))
   \<and> isl (forward ((example_model True)\<lparr>training := True\<rparr>) (example_images 2)
            (Some (example_extra 2 5)))"
proof -
  note i = example_init_model[of True]
  have a2: "2 \<le> length (shape (example_extra 2 2)) \<and> shape (example_extra 2 2) ! 1 = 2"
    by (simp add: example_extra_def)
  have a3: "2 \<le> length (shape (example_extra 2 3)) \<and> shape (example_extra 2 3) ! 1 = 3"
    by (simp add: example_extra_def)
  have a5: "\<not> (2 \<le> length (shape (example_extra 2 5))
               \<and> (shape (example_extra 2 5) ! 1 = 2 \<or> shape (example_extra 2 5) ! 1 = 3))"
    by (simp add: example_extra_def)
  have h: "select_backbone example_backbones ''simple_cnn'' = Inr (example_extractor 64, 64)
           \<and> example_extractor 64 True (example_images 2) = Inr (Tensor [2, 64] (\<lambda>idx. 1))
           \<and> shape (Tensor [2, 64] (\<lambda>idx. 1)) = [2, 64]
           \<and> shape (example_extra 2 2) = [2, 2] \<and> shape (example_extra 2 3) = [2, 3]"
    by (simp add: example_select example_extractor_def example_images_def example_extra_def)
  note th = forward_encoder_dispatch[OF i, where tr = True and x = "example_images 2"
      and ea = "example_extra 2 2" and eb = "example_extra 2 3"
      and fe = "example_extractor 64" and fd = 64 and f = "Tensor [2, 64] (\<lambda>idx. 1)" and B = 2]
  note t2 = th[where e = "example_extra 2 2", THEN conjunct2, THEN conjunct2]
  note t3 = th[where e = "example_extra 2 3", THEN conjunct2, THEN conjunct2]
  note t5 = th[where e = "example_extra 2 5", THEN conjunct2, THEN conjunct2]
  note r2 = t2[THEN conjunct1, THEN mp, OF a2]
  note r3 = t3[THEN conjunct2, THEN conjunct1, THEN mp, OF a3]
  note ok = t2[THEN conjunct2, THEN conjunct2, THEN conjunct2, THEN conjunct1, THEN mp, OF h]
  note bad = t5[THEN conjunct2, THEN conjunct2, THEN conjunct2, THEN conjunct2, THEN mp, OF a5]
  show ?thesis
    by (intro conjI) (rule i r2 r3 ok[THEN conjunct1] ok[THEN conjunct2] bad)+
qed

text \<open>
  Claim C3. Construction succeeds for \<open>resnet18\<close>, \<open>efficientnet_b0\<close> and
  \<open>simple_cnn\<close>, with the selected extractor and with a reduction layer whose input
  width (the embedding dimension before reduction) is 512, 1280 and 64; for every other
  name it raises the \<open>ValueError\<close> for an unsupported model type. So it succeeds exactly
  for the three names.
\<close>

theorem CNN_init_backbone:
  "(\<exists>m. CNN_init bb ini ''resnet18'' ue = Inr m \<and> feature_extractor m = resnet18 bb
        \<and> reduce m = [new_Linear ini ''reduce.0'' 512 128, ReLU])
   \<and> (\<exists>m. CNN_init bb ini ''efficientnet_b0'' ue = Inr m
        \<and> feature_extractor m = efficientnet_b0 bb
        \<and> reduce m = [new_Linear ini ''reduce.0'' 1280 128, ReLU])
   \<and> (\<exists>m. CNN_init bb ini ''simple_cnn'' ue = Inr m \<and> feature_extractor m = simple_cnn bb
        \<and> reduce m = [new_Linear ini ''reduce.0'' 64 128, ReLU])
   \<and> select_backbone bb ''resnet18'' = Inr (resnet18 bb, 512)
   \<and> select_backbone bb ''efficientnet_b0'' = Inr (efficientnet_b0 bb, 1280)
   \<and> select_backbone bb ''simple_cnn'' = Inr (simple_cnn bb, 64)
   \<and> (mt \<noteq> ''resnet18'' \<and> mt \<noteq> ''efficientnet_b0'' \<and> mt \<noteq> ''simple_cnn'' \<longrightarrow>
        CNN_init bb ini mt ue = Inl (ValueError (''Unsupported model type: '' @ mt)))
   \<and> ((\<exists>m. CNN_init bb ini mt ue = Inr m) \<longleftrightarrow>
        mt = ''resnet18'' \<or> mt = ''efficientnet_b0'' \<or> mt = ''simple_cnn'')"
  by (simp add: CNN_init_def select_backbone_def)

theorem CNN_init_backbone_witness:
  "CNN_init example_backbones example_init ''vgg16'' True
     = Inl (ValueError ''Unsupported model type: vgg16'')
   \<and> \<not> (\<exists>m. CNN_init example_backbones example_init ''vgg16'' True = Inr m)"
  using CNN_init_backbone[of example_backbones example_init True "''vgg16''"] by simp

text \<open>
  Claim C4. When every batch of a training pass is processed without an exception and
  the pass has seen at least one sample, \<open>train\<close> returns the size-weighted mean of the
  per-batch losses: the sum over the batches of loss times batch size, divided by the
  number of samples.
\<close>

theorem train_weighted_mean:
  assumes "batch_losses crit step (model\<lparr>training := True\<rparr>, opt) train_loader = Inr ls"
    and "0 < sum_list (map snd ls)"
  shows "\<exists>s. train model train_loader crit step opt =
           Inr (s, sum_list (map (\<lambda>(l, n). l * real n) ls) / real (sum_list (map snd ls)))"
proof -
  define N where "N = sum_list (map snd ls)"
  from train_loop_acc[OF assms(1), of 0 0] obtain s' where
    "train_loop crit step (model\<lparr>training := True\<rparr>, opt) 0 0 train_loader =
       Inr (s', sum_list (map (\<lambda>(l, n). l * real n) ls), N)"
    unfolding N_def by auto
  moreover from assms(2) have "N \<noteq> 0" unfolding N_def by (rule gr_implies_not0[rotated]) 
  ultimately show ?thesis unfolding N_def[symmetric] by (simp add: train_def py_div_def)
qed

theorem train_weighted_mean_witness:
  "batch_losses example_criterion example_step ((example_model True)\<lparr>training := True\<rparr>, 0)
     example_loader = Inr [(1 / 2, 2), (4, 1)]
   \<and> map_sum id snd (train (example_model True) example_loader example_criterion example_step 0)
       = Inr (5 / 3)"
proof -
  have b: "batch_losses example_criterion example_step
             ((example_model True)\<lparr>training := True\<rparr>, 0) example_loader
           = Inr [(1 / 2, 2), (4, 1)]"
    by (simp add: example_loader_def train_step_def example_forward_defs example_criterion_def
        example_step_def example_vector_def item_def size0_def power2_eq_square example_upt)
  from train_weighted_mean[OF b] show ?thesis using b by auto
qed

text \<open>
  Claim C5. \<open>validate\<close> leaves the model as it was but for the mode flag that
  \<open>model.eval()\<close> clears: no layer and no weight changes, whether or not the pass
  ends in an exception. When every batch is processed without an exception, the pass has
  seen at least one sample and the metric accepts the collected lists, the result is the
  pair of the size-weighted mean loss and the mean absolute error of all labels against
  all outputs collected in the pass, in batch order.
\<close>

theorem validate_result:
  "fst (validate model val_loader crit mae) = model\<lparr>training := False\<rparr> \<and>
   (list_all2 (\<lambda>b r. validate_step crit (model\<lparr>training := False\<rparr>) b = Inr r) val_loader rs \<longrightarrow>
    0 < sum_list (map (\<lambda>(l, n, ls, os). n) rs) \<longrightarrow>
    mae (concat (map (\<lambda>(l, n, ls, os). ls) rs)) (concat (map (\<lambda>(l, n, ls, os). os) rs)) = Inr e \<longrightarrow>
    snd (validate model val_loader crit mae) =
      Inr (sum_list (map (\<lambda>(l, n, ls, os). l * real n) rs)
             / real (sum_list (map (\<lambda>(l, n, ls, os). n) rs)), e))"
proof (intro conjI impI)
  show "fst (validate model val_loader crit mae) = model\<lparr>training := False\<rparr>"
    by (simp add: validate_def Let_def)
next
  assume a: "list_all2 (\<lambda>b r. validate_step crit (model\<lparr>training := False\<rparr>) b = Inr r) val_loader rs"
    and n: "0 < sum_list (map (\<lambda>(l, n, ls, os). n) rs)"
    and m: "mae (concat (map (\<lambda>(l, n, ls, os). ls) rs)) (concat (map (\<lambda>(l, n, ls, os). os) rs)) = Inr e"
  define N where "N = sum_list (map (\<lambda>(l, n, ls, os). n) rs)"
  from n have "N \<noteq> 0" unfolding N_def by (rule gr_implies_not0[rotated])
  with validate_loop_acc[OF a, of 0 0 "[]" "[]"] m
  show "snd (validate model val_loader crit mae) =
      Inr (sum_list (map (\<lambda>(l, n, ls, os). l * real n) rs)
             / real (sum_list (map (\<lambda>(l, n, ls, os). n) rs)), e)"
    unfolding N_def[symmetric] by (simp add: validate_def Let_def py_div_def)
qed

theorem validate_result_witness:
  "validate (example_model True) example_loader example_criterion
     example_mean_absolute_error_arrays
   = ((example_model True)\<lparr>training := False\<rparr>, Inr (10 / 3, 4 / 3))"
proof -
  let ?s = "\<lambda>r. Tensor [] (\<lambda>idx. r)"
  let ?rs = "[(1 / 2, 2, [?s (50449 / 10000), ?s (60449 / 10000)],
                         [?s (50449 / 10000), ?s (50449 / 10000)]),
              (9, 1, [?s (80449 / 10000)], [?s (50449 / 10000)])]"
  have a: "list_all2 (\<lambda>b r. validate_step example_criterion
             ((example_model True)\<lparr>training := False\<rparr>) b = Inr r) example_loader ?rs"
    by (simp add: example_loader_def validate_step_def example_forward_defs
        example_criterion_def example_vector_def item_def size0_def iter_tensor_def
        power2_eq_square example_upt)
  have m: "example_mean_absolute_error_arrays
             (concat (map (\<lambda>(l, n, ls, os). ls) ?rs)) (concat (map (\<lambda>(l, n, ls, os). os) ?rs))
           = Inr (4 / 3)"
    by (simp add: example_mean_absolute_error_arrays_def example_mean_absolute_error_def)
  from validate_result[of "example_model True" example_loader example_criterion
      example_mean_absolute_error_arrays ?rs "4 / 3"] a m
  show ?thesis by (simp add: prod_eq_iff)
qed

text \<open>
  Claim C6. In a test pass in which every batch is inferred, every identifier is in the
  table and every prediction is a single number: for the target \<open>mag\<close> or \<open>dep\<close> each
  written row holds the prediction rounded to 1 decimal place and the error is computed
  from the predictions rounded to 1 place; for \<open>lon\<close> or \<open>lat\<close> each written row holds
  the prediction rounded to 3 places while the error is computed from the predictions
  rounded to 2 places; the error returned (and embedded in the file name) is the mean
  absolute error rounded to 3 places. The call returns this result once the output file
  is opened, and the exception of \<open>open\<close> otherwise.
\<close>

theorem test_rounding:
  assumes policy:
      "(target = ''mag'' \<and> col = ''Mag'' \<and> tbl = dict_zip (map Image df) (map Mag df)
          \<and> rd = 1 \<and> md = 1)
       \<or> (target = ''dep'' \<and> col = ''Dep'' \<and> tbl = dict_zip (map Image df) (map Depth df)
          \<and> rd = 1 \<and> md = 1)
       \<or> (target = ''lon'' \<and> col = ''Lon'' \<and> tbl = dict_zip (map Image df) (map Lon df)
          \<and> rd = 3 \<and> md = 2)
       \<or> (target = ''lat'' \<and> col = ''Lat'' \<and> tbl = dict_zip (map Image df) (map Lat df)
          \<and> rd = 3 \<and> md = 2)"
    and batches: "list_all2 (\<lambda>b predicted. case b of (images, image_names, extra_params) \<Rightarrow>
         ebind (forward (model\<lparr>training := False\<rparr>) images (Some extra_params)) iter_tensor
           = Inr predicted) test_loader predss"
    and found: "list_all2 (\<lambda>(name, pred) (name', v, p).
                   name' = name \<and> tbl name = Some v \<and> item pred = Inr p)
                 (samples test_loader predss) triples"
    and mae: "mean_absolute_error (map (\<lambda>(n, v, p). v) triples)
                (map (\<lambda>(n, v, p). py_round p md) triples) = Inr e"
  shows "test model test_loader target df mean_absolute_error fmt fs =
           ebind (open_w fs (''Prediction('' @ target @ '') - MAE = '' @ fmt (py_round e 3)
                              @ ''.csv''))
             (\<lambda>csvfile.
                Inr (\<lparr> file_name = ''Prediction('' @ target @ '') - MAE = ''
                                       @ fmt (py_round e 3) @ ''.csv'',
                       fieldnames = [''id'', col, ''prediction''],
                       rows = map (\<lambda>(n, v, p). [(''id'', Str n), (col, Num v),
                                                  (''prediction'', Num (py_round p rd))])
                                triples \<rparr>,
                     py_round e 3))"
proof -
  note ok = test_ok[where mae = mean_absolute_error and tbl = tbl and target = target
      and col = col and rd = rd and md = md and df = df and fs = fs and fmt = fmt,
      OF _ batches found mae]
  from policy show ?thesis
  proof (elim disjE conjE)
    assume t: "target = ''mag''" "col = ''Mag''" "tbl = dict_zip (map Image df) (map Mag df)"
      "rd = 1" "md = 1"
    have "\<And>name pred v p. tbl name = Some v \<Longrightarrow> item pred = Inr p \<Longrightarrow>
            record_sample target (label_tables df) name pred =
              Inr ([(''id'', Str name), (col, Num v), (''prediction'', Num (py_round p rd))],
                   v, py_round p md)"
      unfolding t by (rule record_sample_mag)
    from ok[OF this] show ?thesis unfolding t(1,2) by simp
  next
    assume t: "target = ''dep''" "col = ''Dep''" "tbl = dict_zip (map Image df) (map Depth df)"
      "rd = 1" "md = 1"
    have "\<And>name pred v p. tbl name = Some v \<Longrightarrow> item pred = Inr p \<Longrightarrow>
            record_sample target (label_tables df) name pred =
              Inr ([(''id'', Str name), (col, Num v), (''prediction'', Num (py_round p rd))],
                   v, py_round p md)"
      unfolding t by (rule record_sample_dep)
    from ok[OF this] show ?thesis unfolding t(1,2) by simp
  next
    assume t: "target = ''lon''" "col = ''Lon''" "tbl = dict_zip (map Image df) (map Lon df)"
      "rd = 3" "md = 2"
    have "\<And>name pred v p. tbl name = Some v \<Longrightarrow> item pred = Inr p \<Longrightarrow>
            record_sample target (label_tables df) name pred =
              Inr ([(''id'', Str name), (col, Num v), (''prediction'', Num (py_round p rd))],
                   v, py_round p md)"
      unfolding t by (rule record_sample_lon)
    from ok[OF this] show ?thesis unfolding t(1,2) by simp
  next
    assume t: "target = ''lat''" "col = ''Lat''" "tbl = dict_zip (map Image df) (map Lat df)"
      "rd = 3" "md = 2"
    have "\<And>name pred v p. tbl name = Some v \<Longrightarrow> item pred = Inr p \<Longrightarrow>
            record_sample target (label_tables df) name pred =
              Inr ([(''id'', Str name), (col, Num v), (''prediction'', Num (py_round p rd))],
                   v, py_round p md)"
      unfolding t by (rule record_sample_else) simp_all
    from ok[OF this] show ?thesis unfolding t(1,2) by simp
  qed
qed

theorem test_rounding_witness:
  "test (example_model True) (example_test_loader [''A'', ''B'']) ''mag'' example_df
     example_mean_absolute_error example_fmt example_fs
   = Inr (\<lparr> file_name = ''Prediction(mag) - MAE = x.csv'',
            fieldnames = [''id'', ''Mag'', ''prediction''],
            rows = [[(''id'', Str ''A''), (''Mag'', Num 5), (''prediction'', Num 5)],
                    [(''id'', Str ''B''), (''Mag'', Num (62 / 10)), (''prediction'', Num 5)]] \<rparr>,
          6 / 10)
   \<and> test (example_model True) (example_test_loader [''A'', ''B'']) ''lon'' example_df
       example_mean_absolute_error example_fmt example_fs
     = Inr (\<lparr> file_name = ''Prediction(lon) - MAE = x.csv'',
              fieldnames = [''id'', ''Lon'', ''prediction''],
              rows = [[(''id'', Str ''A''), (''Lon'', Num (1215 / 10)),
                       (''prediction'', Num (5045 / 1000))],
                      [(''id'', Str ''B''), (''Lon'', Num (12025 / 100)),
                       (''prediction'', Num (5045 / 1000))]] \<rparr>,
            115835 / 1000)"
proof -
  let ?mag = "[(''A'', 5 :: real, 50449 / 10000 :: real), (''B'', 62 / 10, 50449 / 10000)]"
  let ?lon = "[(''A'', 1215 / 10 :: real, 50449 / 10000 :: real),
               (''B'', 12025 / 100, 50449 / 10000)]"
  let ?preds = "[[Tensor [] (\<lambda>idx. 50449 / 10000), Tensor [] (\<lambda>idx. 50449 / 10000)]]"
  have b: "list_all2 (\<lambda>b predicted. case b of (images, image_names, extra_params) \<Rightarrow>
         ebind (forward ((example_model True)\<lparr>training := False\<rparr>) images (Some extra_params))
           iter_tensor = Inr predicted) (example_test_loader [''A'', ''B''])
       [[Tensor [] (\<lambda>idx. 50449 / 10000), Tensor [] (\<lambda>idx. 50449 / 10000)]]"
    by (simp add: example_test_loader_def example_forward_defs iter_tensor_def example_upt)
  have s: "samples (example_test_loader [''A'', ''B''])
             [[Tensor [] (\<lambda>idx. 50449 / 10000), Tensor [] (\<lambda>idx. 50449 / 10000)]]
           = [(''A'', Tensor [] (\<lambda>idx. 50449 / 10000)), (''B'', Tensor [] (\<lambda>idx. 50449 / 10000))]"
    by (simp add: samples_def example_test_loader_def)
  have r: "py_round (50449 / 10000) 1 = 5" "py_round (50449 / 10000) (Suc 0) = 5"
    "py_round (50449 / 10000) 2 = 504 / 100"
    "py_round (50449 / 10000) 3 = 5045 / 1000" "py_round (6 / 10) 3 = 6 / 10"
    "py_round (115835 / 1000) 3 = 115835 / 1000"
    by (simp_all add: py_round_def Let_def)
  have fm: "list_all2 (\<lambda>(name, pred) (name', v, p). name' = name
              \<and> dict_zip (map Image example_df) (map Mag example_df) name = Some v
              \<and> item pred = Inr p)
            (samples (example_test_loader [''A'', ''B''])
               [[Tensor [] (\<lambda>idx. 50449 / 10000), Tensor [] (\<lambda>idx. 50449 / 10000)]]) ?mag"
    unfolding s by (simp add: example_df_def dict_zip_def item_def)
  have fl: "list_all2 (\<lambda>(name, pred) (name', v, p). name' = name
              \<and> dict_zip (map Image example_df) (map Lon example_df) name = Some v
              \<and> item pred = Inr p)
            (samples (example_test_loader [''A'', ''B''])
               [[Tensor [] (\<lambda>idx. 50449 / 10000), Tensor [] (\<lambda>idx. 50449 / 10000)]]) ?lon"
    unfolding s by (simp add: example_df_def dict_zip_def item_def)
  have mm: "example_mean_absolute_error (map (\<lambda>(n, v, p). v) ?mag)
              (map (\<lambda>(n, v, p). py_round p 1) ?mag) = Inr (6 / 10)"
    by (simp add: example_mean_absolute_error_def r)
  have ml: "example_mean_absolute_error (map (\<lambda>(n, v, p). v) ?lon)
              (map (\<lambda>(n, v, p). py_round p 2) ?lon) = Inr (115835 / 1000)"
    by (simp add: example_mean_absolute_error_def r)
  note tm = test_rounding[where target = "''mag''" and col = "''Mag''" and rd = 1 and md = 1
        and tbl = "dict_zip (map Image example_df) (map Mag example_df)" and df = example_df
        and model = "example_model True" and test_loader = "example_test_loader [''A'', ''B'']"
        and predss = ?preds and triples = ?mag
        and mean_absolute_error = example_mean_absolute_error and e = "6 / 10"
        and fmt = example_fmt and fs = example_fs, OF _ b fm mm]
  note tl = test_rounding[where target = "''lon''" and col = "''Lon''" and rd = 3 and md = 2
        and tbl = "dict_zip (map Image example_df) (map Lon example_df)" and df = example_df
        and model = "example_model True" and test_loader = "example_test_loader [''A'', ''B'']"
        and predss = ?preds and triples = ?lon
        and mean_absolute_error = example_mean_absolute_error and e = "115835 / 1000"
        and fmt = example_fmt and fs = example_fs, OF _ b fl ml]
  from tm tl show ?thesis
    by (simp add: example_fmt_def example_fs_def open_w_def py_round_def Let_def)
qed

text \<open>
  Claim C7. In a test pass in which every batch is inferred and every prediction is a
  single number, if some identifier paired with a prediction is absent from the
  reference table then \<open>test\<close> raises \<open>KeyError\<close> for an absent identifier of the
  pass: it returns no file and no error value, so the sample is neither skipped nor given
  a default.
\<close>

theorem test_missing_identifier:
  assumes batches: "list_all2 (\<lambda>b predicted. case b of (images, image_names, extra_params) \<Rightarrow>
         ebind (forward (model\<lparr>training := False\<rparr>) images (Some extra_params)) iter_tensor
           = Inr predicted) test_loader predss"
    and scalars: "\<forall>x\<in>set (samples test_loader predss). \<exists>p. item (snd x) = Inr p"
    and absent: "\<exists>x\<in>set (samples test_loader predss). fst x \<notin> Image ` set df"
  shows "\<exists>name. name \<in> fst ` set (samples test_loader predss) \<and> name \<notin> Image ` set df
           \<and> test model test_loader target df mean_absolute_error fmt fs = Inl (KeyError name)"
proof -
  from sample_loop_absent[OF absent scalars, of target "([], [], [])"]
  obtain name where n: "name \<in> fst ` set (samples test_loader predss)"
      "name \<notin> Image ` set df"
      "sample_loop target (label_tables df) ([], [], []) (samples test_loader predss)
         = Inl (KeyError name)"
    by blast
  from n(3) have "test model test_loader target df mean_absolute_error fmt fs
                    = Inl (KeyError name)"
    by (simp add: test_unfold test_loop_samples[OF batches])
  with n(1,2) show ?thesis by blast
qed

theorem test_missing_identifier_witness:
  "test (example_model True) (example_test_loader [''A'', ''C'']) ''mag'' example_df
     example_mean_absolute_error example_fmt example_fs = Inl (KeyError ''C'')"
proof -
  have b: "list_all2 (\<lambda>b predicted. case b of (images, image_names, extra_params) \<Rightarrow>
         ebind (forward ((example_model True)\<lparr>training := False\<rparr>) images (Some extra_params))
           iter_tensor = Inr predicted) (example_test_loader [''A'', ''C''])
       [[Tensor [] (\<lambda>idx. 50449 / 10000), Tensor [] (\<lambda>idx. 50449 / 10000)]]"
    by (simp add: example_test_loader_def example_forward_defs iter_tensor_def example_upt)
  have s: "samples (example_test_loader [''A'', ''C''])
             [[Tensor [] (\<lambda>idx. 50449 / 10000), Tensor [] (\<lambda>idx. 50449 / 10000)]]
           = [(''A'', Tensor [] (\<lambda>idx. 50449 / 10000)), (''C'', Tensor [] (\<lambda>idx. 50449 / 10000))]"
    by (simp add: samples_def example_test_loader_def)
  have d: "Image ` set example_df = {''A'', ''B''}"
    by (simp add: example_df_def)
  have sc: "\<forall>x\<in>set (samples (example_test_loader [''A'', ''C''])
               [[Tensor [] (\<lambda>idx. 50449 / 10000), Tensor [] (\<lambda>idx. 50449 / 10000)]]).
             \<exists>p. item (snd x) = Inr p"
    unfolding s
  proof (intro ballI)
    fix x
    assume "x \<in> set [(''A'', Tensor [] (\<lambda>idx. 50449 / 10000)),
                      (''C'', Tensor [] (\<lambda>idx. 50449 / 10000))]"
    then have "item (snd x) = Inr (50449 / 10000)" by (auto simp: item_def)
    then show "\<exists>p. item (snd x) = Inr p" by blast
  qed
  have ab: "\<exists>x\<in>set (samples (example_test_loader [''A'', ''C''])
               [[Tensor [] (\<lambda>idx. 50449 / 10000), Tensor [] (\<lambda>idx. 50449 / 10000)]]).
             fst x \<notin> Image ` set example_df"
    unfolding s d by simp
  from test_missing_identifier[OF b sc ab, of "''mag''" example_mean_absolute_error example_fmt
      example_fs]
  show ?thesis unfolding s d by auto
qed

text \<open>
  Claim C8. For every model constructed with auxiliary parameters disabled (in either
  mode, with any weights), \<open>forward\<close> does not consult the auxiliary argument: a call
  with any auxiliary tensor and a call with none return the same result on the same image
  batch. When the feature extractor accepts the image batch and returns one embedding of
  width \<open>feature_dim\<close> per sample, that result is a tensor of shape \<open>[B]\<close>.
\<close>

theorem forward_extra_params_disabled:
  assumes "CNN_init bb ini mt False = Inr m"
  shows "forward (m\<lparr>training := tr\<rparr>) x (Some e) = forward (m\<lparr>training := tr\<rparr>) x None
     \<and> (select_backbone bb mt = Inr (fe, fd) \<and> fe tr x = Inr f \<and> size0 x = Inr B
          \<and> shape f = [B, fd] \<longrightarrow>
          (\<exists>out. forward (m\<lparr>training := tr\<rparr>) x aux = Inr out \<and> shape out = [B]))"
proof (intro conjI impI)
  have "\<not> use_extra_params (m\<lparr>training := tr\<rparr>)"
    using init_use_extra[OF assms, of tr] by simp
  then show "forward (m\<lparr>training := tr\<rparr>) x (Some e) = forward (m\<lparr>training := tr\<rparr>) x None"
    by (rule forward_disabled_ignores)
next
  assume "select_backbone bb mt = Inr (fe, fd) \<and> fe tr x = Inr f \<and> size0 x = Inr B
          \<and> shape f = [B, fd]"
  then show "\<exists>out. forward (m\<lparr>training := tr\<rparr>) x aux = Inr out \<and> shape out = [B]"
    using forward_disabled_ok[OF assms] by blast
qed

theorem forward_extra_params_disabled_witness:
  "CNN_init example_backbones example_init ''simple_cnn'' False = Inr (example_model False)
   \<and> forward ((example_model False)\<lparr>training := False\<rparr>) (example_images 2)
       (Some (example_extra 2 7))
     = forward ((example_model False)\<lparr>training := False\<rparr>) (example_images 2) None
   \<and> (\<exists>out. forward ((example_model False)\<lparr>training := False\<rparr>) (example_images 2) None
               = Inr out \<and> shape out = [2])"
proof -
  note i = example_init_model[of False]
  have x: "example_extractor 64 False (example_images 2) = Inr (Tensor [2, 64] (\<lambda>idx. 1))"
    "size0 (example_images 2) = Inr 2"
    by (simp_all add: example_extractor_def example_images_def size0_def)
  from forward_extra_params_disabled[OF i, where tr = False and x = "example_images 2"
      and e = "example_extra 2 7" and fe = "example_extractor 64" and fd = 64
      and f = "Tensor [2, 64] (\<lambda>idx. 1)" and B = 2 and aux = None]
  show ?thesis using i x example_select by simp
qed

text \<open>
  Claim C9, as stated: for every target other than \<open>mag\<close>, \<open>dep\<close> and \<open>lon\<close> the
  call applies the latitude policy rather than failing. The target is also embedded,
  unchecked, in the name of the output file: for the target \<open>a/b\<close> the run computes the
  latitude error and then fails to open \<open>Prediction(a/b) - MAE = ....csv\<close> in a
  directory without the sub-directory \<open>Prediction(a\<close>, and writes nothing, while the
  run for \<open>lat\<close> on the same inputs succeeds.
\<close>

theorem test_unvalidated_target_counterexample:
  "test (example_model True) (example_test_loader [''A'', ''B'']) ''a/b'' example_df
     example_mean_absolute_error example_fmt example_fs = Inl OSError
   \<and> test (example_model True) (example_test_loader [''A'', ''B'']) ''lat'' example_df
       example_mean_absolute_error example_fmt example_fs
     = Inr (\<lparr> file_name = ''Prediction(lat) - MAE = x.csv'',
              fieldnames = [''id'', ''Lat'', ''prediction''],
              rows = [[(''id'', Str ''A''), (''Lat'', Num (235 / 10)),
                       (''prediction'', Num (5045 / 1000))],
                      [(''id'', Str ''B''), (''Lat'', Num 24),
                       (''prediction'', Num (5045 / 1000))]] \<rparr>,
            1871 / 100)"
proof -
  let ?lat = "[(''A'', 235 / 10 :: real, 50449 / 10000 :: real), (''B'', 24, 50449 / 10000)]"
  let ?preds = "[[Tensor [] (\<lambda>idx. 50449 / 10000), Tensor [] (\<lambda>idx. 50449 / 10000)]]"
  have b: "list_all2 (\<lambda>b predicted. case b of (images, image_names, extra_params) \<Rightarrow>
         ebind (forward ((example_model True)\<lparr>training := False\<rparr>) images (Some extra_params))
           iter_tensor = Inr predicted) (example_test_loader [''A'', ''B''])
       [[Tensor [] (\<lambda>idx. 50449 / 10000), Tensor [] (\<lambda>idx. 50449 / 10000)]]"
    by (simp add: example_test_loader_def example_forward_defs iter_tensor_def example_upt)
  have s: "samples (example_test_loader [''A'', ''B'']) ?preds
           = [(''A'', Tensor [] (\<lambda>idx. 50449 / 10000)), (''B'', Tensor [] (\<lambda>idx. 50449 / 10000))]"
    by (simp add: samples_def example_test_loader_def)
  have r: "py_round (50449 / 10000) 2 = 504 / 100"
    by (simp add: py_round_def Let_def)
  have f: "list_all2 (\<lambda>(name, pred) (name', v, p). name' = name
              \<and> dict_zip (map Image example_df) (map Lat example_df) name = Some v
              \<and> item pred = Inr p)
            (samples (example_test_loader [''A'', ''B'']) ?preds) ?lat"
    unfolding s by (simp add: example_df_def dict_zip_def item_def)
  have m: "example_mean_absolute_error (map (\<lambda>(n, v, p). v) ?lat)
              (map (\<lambda>(n, v, p). py_round p 2) ?lat) = Inr (1871 / 100)"
    by (simp add: example_mean_absolute_error_def r)
  have rab: "\<And>name pred v p.
            dict_zip (map Image example_df) (map Lat example_df) name = Some v \<Longrightarrow>
            item pred = Inr p \<Longrightarrow>
            record_sample ''a/b'' (label_tables example_df) name pred =
              Inr ([(''id'', Str name), (''Lat'', Num v), (''prediction'', Num (py_round p 3))],
                   v, py_round p 2)"
    by (rule record_sample_else) simp_all
  have rlat: "\<And>name pred v p.
            dict_zip (map Image example_df) (map Lat example_df) name = Some v \<Longrightarrow>
            item pred = Inr p \<Longrightarrow>
            record_sample ''lat'' (label_tables example_df) name pred =
              Inr ([(''id'', Str name), (''Lat'', Num v), (''prediction'', Num (py_round p 3))],
                   v, py_round p 2)"
    by (rule record_sample_else) simp_all
  have r3: "py_round (1871 / 100) 3 = 1871 / 100"
    "py_round (50449 / 10000) 3 = 5045 / 1000"
    by (simp_all add: py_round_def Let_def)
  have oab: "open_w example_fs (''Prediction('' @ ''a/b'' @ '') - MAE = ''
               @ example_fmt (py_round (1871 / 100) 3) @ ''.csv'') = Inl OSError"
    by (simp add: open_w_def example_fs_def example_fmt_def)
  have olat: "open_w example_fs (''Prediction('' @ ''lat'' @ '') - MAE = ''
               @ example_fmt (py_round (1871 / 100) 3) @ ''.csv'') = Inr ()"
    by (simp add: open_w_def example_fs_def example_fmt_def)
  note ab = test_ok[where mae = example_mean_absolute_error
      and tbl = "dict_zip (map Image example_df) (map Lat example_df)"
      and target = "''a/b''"
      and col = "''Lat''" and rd = 3 and md = 2 and df = example_df
      and model = "example_model True" and test_loader = "example_test_loader [''A'', ''B'']"
      and predss = ?preds and triples = ?lat and e = "1871 / 100" and fmt = example_fmt
      and fs = example_fs, OF rab b f m]
  note lat = test_ok[where mae = example_mean_absolute_error
      and tbl = "dict_zip (map Image example_df) (map Lat example_df)"
      and target = "''lat''"
      and col = "''Lat''" and rd = 3 and md = 2 and df = example_df
      and model = "example_model True" and test_loader = "example_test_loader [''A'', ''B'']"
      and predss = ?preds and triples = ?lat and e = "1871 / 100" and fmt = example_fmt
      and fs = example_fs, OF rlat b f m]
  have "test (example_model True) (example_test_loader [''A'', ''B'']) ''a/b'' example_df
     example_mean_absolute_error example_fmt example_fs = Inl OSError"
    by (simp only: ab oab ebind_Inl)
  moreover have "test (example_model True) (example_test_loader [''A'', ''B'']) ''lat''
       example_df example_mean_absolute_error example_fmt example_fs
     = Inr (\<lparr> file_name = ''Prediction(lat) - MAE = x.csv'',
              fieldnames = [''id'', ''Lat'', ''prediction''],
              rows = [[(''id'', Str ''A''), (''Lat'', Num (235 / 10)),
                       (''prediction'', Num (5045 / 1000))],
                      [(''id'', Str ''B''), (''Lat'', Num 24),
                       (''prediction'', Num (5045 / 1000))]] \<rparr>,
            1871 / 100)"
    by (simp only: lat olat ebind_Inr) (simp add: r3 example_fmt_def)
  ultimately show ?thesis by (rule conjI)
qed

text \<open>
  Claim C9, amended. \<open>test\<close> does not validate the target: for every target other than
  \<open>mag\<close>, \<open>dep\<close> and \<open>lon\<close> the loop over the samples behaves exactly as for \<open>lat\<close>
  (latitude lookup, rows keyed \<open>id\<close>, \<open>Lat\<close>, \<open>prediction\<close> with the prediction
  rounded to 3 decimal places, the metric fed with the predictions rounded to 2 places),
  so it raises there exactly when the latitude run does. In a pass in which every batch is
  inferred, every identifier is in the latitude dictionary and every prediction is a
  single number, the call returns the file with header \<open>id\<close>, \<open>Lat\<close>, \<open>prediction\<close>
  and the error rounded to 3 places whenever the output file, whose name embeds the
  target, can be opened, and raises the exception of \<open>open\<close> otherwise.
\<close>

theorem test_unvalidated_target:
  assumes "target \<noteq> ''mag''" "target \<noteq> ''dep''" "target \<noteq> ''lon''"
  shows "test_loop m target tbls acc bs = test_loop m ''lat'' tbls acc bs
     \<and> (list_all2 (\<lambda>b predicted. case b of (images, image_names, extra_params) \<Rightarrow>
         ebind (forward (model\<lparr>training := False\<rparr>) images (Some extra_params)) iter_tensor
           = Inr predicted) test_loader predss \<and>
        list_all2 (\<lambda>(name, pred) (name', v, p). name' = name
             \<and> dict_zip (map Image df) (map Lat df) name = Some v \<and> item pred = Inr p)
          (samples test_loader predss) triples \<and>
        mean_absolute_error (map (\<lambda>(n, v, p). v) triples)
          (map (\<lambda>(n, v, p). py_round p 2) triples) = Inr e \<longrightarrow>
        test model test_loader target df mean_absolute_error fmt fs =
          ebind (open_w fs (''Prediction('' @ target @ '') - MAE = '' @ fmt (py_round e 3)
                             @ ''.csv''))
            (\<lambda>csvfile.
               Inr (\<lparr> file_name = ''Prediction('' @ target @ '') - MAE = ''
                                      @ fmt (py_round e 3) @ ''.csv'',
                      fieldnames = [''id'', ''Lat'', ''prediction''],
                      rows = map (\<lambda>(n, v, p). [(''id'', Str n), (''Lat'', Num v),
                                                 (''prediction'', Num (py_round p 3))])
                               triples \<rparr>,
                    py_round e 3)))"
proof (intro conjI impI)
  show "test_loop m target tbls acc bs = test_loop m ''lat'' tbls acc bs"
    by (rule test_loop_as_lat[OF assms])
next
  assume h: "list_all2 (\<lambda>b predicted. case b of (images, image_names, extra_params) \<Rightarrow>
         ebind (forward (model\<lparr>training := False\<rparr>) images (Some extra_params)) iter_tensor
           = Inr predicted) test_loader predss \<and>
        list_all2 (\<lambda>(name, pred) (name', v, p). name' = name
             \<and> dict_zip (map Image df) (map Lat df) name = Some v \<and> item pred = Inr p)
          (samples test_loader predss) triples \<and>
        mean_absolute_error (map (\<lambda>(n, v, p). v) triples)
          (map (\<lambda>(n, v, p). py_round p 2) triples) = Inr e"
  have rs: "\<And>name pred v p. dict_zip (map Image df) (map Lat df) name = Some v \<Longrightarrow>
            item pred = Inr p \<Longrightarrow>
            record_sample target (label_tables df) name pred =
              Inr ([(''id'', Str name), (''Lat'', Num v), (''prediction'', Num (py_round p 3))],
                   v, py_round p 2)"
    by (rule record_sample_else[OF assms])
  from h test_ok[where mae = mean_absolute_error and tbl = "dict_zip (map Image df) (map Lat df)"
      and target = target and col = "''Lat''" and rd = 3 and md = 2 and df = df
      and model = model and test_loader = test_loader and predss = predss
      and triples = triples and e = e and fmt = fmt and fs = fs, OF rs]
  show "test model test_loader target df mean_absolute_error fmt fs =
          ebind (open_w fs (''Prediction('' @ target @ '') - MAE = '' @ fmt (py_round e 3)
                             @ ''.csv''))
            (\<lambda>csvfile.
               Inr (\<lparr> file_name = ''Prediction('' @ target @ '') - MAE = ''
                                      @ fmt (py_round e 3) @ ''.csv'',
                      fieldnames = [''id'', ''Lat'', ''prediction''],
                      rows = map (\<lambda>(n, v, p). [(''id'', Str n), (''Lat'', Num v),
                                                 (''prediction'', Num (py_round p 3))])
                               triples \<rparr>,
                    py_round e 3))"
    using assms by simp
qed

theorem test_unvalidated_target_witness:
  "test (example_model True) (example_test_loader [''A'', ''B'']) ''latitude'' example_df
     example_mean_absolute_error example_fmt example_fs
   = Inr (\<lparr> file_name = ''Prediction(latitude) - MAE = x.csv'',
            fieldnames = [''id'', ''Lat'', ''prediction''],
            rows = [[(''id'', Str ''A''), (''Lat'', Num (235 / 10)),
                     (''prediction'', Num (5045 / 1000))],
                    [(''id'', Str ''B''), (''Lat'', Num 24),
                     (''prediction'', Num (5045 / 1000))]] \<rparr>,
          1871 / 100)
   \<and> test_loop ((example_model True)\<lparr>training := False\<rparr>) ''latitude''
       (label_tables example_df) ([], [], []) (example_test_loader [''A'', ''B''])
     = test_loop ((example_model True)\<lparr>training := False\<rparr>) ''lat''
         (label_tables example_df) ([], [], []) (example_test_loader [''A'', ''B''])"
proof -
  let ?lat = "[(''A'', 235 / 10 :: real, 50449 / 10000 :: real), (''B'', 24, 50449 / 10000)]"
  let ?preds = "[[Tensor [] (\<lambda>idx. 50449 / 10000), Tensor [] (\<lambda>idx. 50449 / 10000)]]"
  have b: "list_all2 (\<lambda>b predicted. case b of (images, image_names, extra_params) \<Rightarrow>
         ebind (forward ((example_model True)\<lparr>training := False\<rparr>) images (Some extra_params))
           iter_tensor = Inr predicted) (example_test_loader [''A'', ''B''])
       [[Tensor [] (\<lambda>idx. 50449 / 10000), Tensor [] (\<lambda>idx. 50449 / 10000)]]"
    by (simp add: example_test_loader_def example_forward_defs iter_tensor_def example_upt)
  have s: "samples (example_test_loader [''A'', ''B'']) ?preds
           = [(''A'', Tensor [] (\<lambda>idx. 50449 / 10000)), (''B'', Tensor [] (\<lambda>idx. 50449 / 10000))]"
    by (simp add: samples_def example_test_loader_def)
  have r: "py_round (50449 / 10000) 2 = 504 / 100"
    by (simp add: py_round_def Let_def)
  have f: "list_all2 (\<lambda>(name, pred) (name', v, p). name' = name
              \<and> dict_zip (map Image example_df) (map Lat example_df) name = Some v
              \<and> item pred = Inr p)
            (samples (example_test_loader [''A'', ''B'']) ?preds) ?lat"
    unfolding s by (simp add: example_df_def dict_zip_def item_def)
  have m: "example_mean_absolute_error (map (\<lambda>(n, v, p). v) ?lat)
              (map (\<lambda>(n, v, p). py_round p 2) ?lat) = Inr (1871 / 100)"
    by (simp add: example_mean_absolute_error_def r)
  have t: "''latitude'' \<noteq> ''mag''" "''latitude'' \<noteq> ''dep''" "''latitude'' \<noteq> ''lon''"
    by simp_all
  note th = test_unvalidated_target[OF t, where model = "example_model True"
      and test_loader = "example_test_loader [''A'', ''B'']" and df = example_df
      and mean_absolute_error = example_mean_absolute_error and fmt = example_fmt
      and fs = example_fs and predss = ?preds and triples = ?lat and e = "1871 / 100"
      and m = "(example_model True)\<lparr>training := False\<rparr>" and tbls = "label_tables example_df"
      and acc = "([], [], [])" and bs = "example_test_loader [''A'', ''B'']"]
  from th[THEN conjunct2, THEN mp, OF conjI[OF b conjI[OF f m]]]
  have "test (example_model True) (example_test_loader [''A'', ''B'']) ''latitude'' example_df
     example_mean_absolute_error example_fmt example_fs
   = Inr (\<lparr> file_name = ''Prediction(latitude) - MAE = x.csv'',
            fieldnames = [''id'', ''Lat'', ''prediction''],
            rows = [[(''id'', Str ''A''), (''Lat'', Num (235 / 10)),
                     (''prediction'', Num (5045 / 1000))],
                    [(''id'', Str ''B''), (''Lat'', Num 24),
                     (''prediction'', Num (5045 / 1000))]] \<rparr>,
          1871 / 100)"
    by (simp add: example_fmt_def example_fs_def open_w_def py_round_def Let_def)
  from this th[THEN conjunct1] show ?thesis by (rule conjI)
qed

text \<open>
  Claim C10. On a loader that yields no batch, \<open>train\<close> and \<open>validate\<close> both raise
  \<open>ZeroDivisionError\<close>: the accumulated loss is divided by a sample count of zero.
\<close>

theorem empty_loader_division_by_zero:
  "train model [] crit step opt = Inl ZeroDivisionError \<and>
   snd (validate model [] crit mae) = Inl ZeroDivisionError"
  by (simp add: train_def validate_def py_div_def Let_def)

end
